theory Spec2Isabelle
  imports Complex_Main "HOL-Library.AList"
begin

section \<open>Python values and exceptions\<close>

text \<open>
  The exceptions the modelled code can raise.  \<open>RuntimeError\<close> is the transport error
  of \<open>LLMRequester._post\<close> after its retries are used up; \<open>ValueError\<close> is the
  validation error of the image entry points; \<open>OSError\<close> is a failed \<open>open\<close>;
  \<open>KeyError\<close>, \<open>TypeError\<close> and \<open>AttributeError\<close> come from indexing, iterating
  and calling \<open>.get\<close> on a value the model returned with another shape than expected;
  \<open>UnboundLocalError\<close> is the read of a local variable no branch has assigned.
\<close>

datatype py_error =
  RuntimeError | ValueError | KeyError | TypeError | AttributeError | OSError | UnboundLocalError

text \<open>
  What \<open>json.loads\<close> produces.  Python strings are modelled as \<open>string\<close>, read as the
  UTF-8 bytes of the text; numbers (int and float alike) as exact rationals; a dict as an
  association list in insertion order with distinct keys.
\<close>

datatype json =
    JNull
  | JBool bool
  | JNum rat
  | JNaN
  | JInf bool
  | JStr string
  | JArr "json list"
  | JObj "(string \<times> json) list"

fun py_truthy :: "json \<Rightarrow> bool" where
  "py_truthy JNull = False"
| "py_truthy (JBool b) = b"
| "py_truthy (JNum r) = (r \<noteq> 0)"
| "py_truthy JNaN = True"
| "py_truthy (JInf _) = True"
| "py_truthy (JStr s) = (s \<noteq> [])"
| "py_truthy (JArr xs) = (xs \<noteq> [])"
| "py_truthy (JObj kvs) = (kvs \<noteq> [])"

definition py_or :: "json \<Rightarrow> json \<Rightarrow> json" where
  \<comment> \<open>\<open>a or b\<close>\<close>
  "py_or a b = (if py_truthy a then a else b)"

fun py_get :: "json \<Rightarrow> string \<Rightarrow> json \<Rightarrow> py_error + json" where
  \<comment> \<open>\<open>d.get(k, default)\<close>; only a dict has it\<close>
  "py_get (JObj kvs) k d = (case map_of kvs k of Some v \<Rightarrow> Inr v | None \<Rightarrow> Inr d)"
| "py_get _ k d = Inl AttributeError"

fun py_index :: "json \<Rightarrow> string \<Rightarrow> py_error + json" where
  \<comment> \<open>\<open>d[k]\<close> with a string key\<close>
  "py_index (JObj kvs) k = (case map_of kvs k of Some v \<Rightarrow> Inr v | None \<Rightarrow> Inl KeyError)"
| "py_index (JStr s) k = Inl TypeError"
| "py_index (JArr xs) k = Inl TypeError"
| "py_index _ k = Inl TypeError"

fun py_iter :: "json \<Rightarrow> py_error + json list" where
  \<comment> \<open>the values a \<open>for\<close> loop over the value visits\<close>
  "py_iter (JArr xs) = Inr xs"
| "py_iter (JStr s) = Inr (map (\<lambda>c. JStr [c]) s)"
| "py_iter (JObj kvs) = Inr (map (\<lambda>kv. JStr (fst kv)) kvs)"
| "py_iter _ = Inl TypeError"

section \<open>Python string operations\<close>

fun find_from :: "char \<Rightarrow> string \<Rightarrow> int \<Rightarrow> int" where
  "find_from c [] i = -1"
| "find_from c (x # xs) i = (if x = c then i else find_from c xs (i + 1))"

definition py_find :: "string \<Rightarrow> char \<Rightarrow> int" where
  \<comment> \<open>\<open>s.find(c)\<close>: index of the first occurrence, \<open>-1\<close> when there is none\<close>
  "py_find s c = find_from c s 0"

fun rfind_from :: "char \<Rightarrow> string \<Rightarrow> int \<Rightarrow> int \<Rightarrow> int" where
  "rfind_from c [] i best = best"
| "rfind_from c (x # xs) i best = rfind_from c xs (i + 1) (if x = c then i else best)"

definition py_rfind :: "string \<Rightarrow> char \<Rightarrow> int" where
  \<comment> \<open>\<open>s.rfind(c)\<close>: index of the last occurrence, \<open>-1\<close> when there is none\<close>
  "py_rfind s c = rfind_from c s 0 (-1)"

definition slice_index :: "nat \<Rightarrow> int \<Rightarrow> nat" where
  \<comment> \<open>how a slice bound is read: a negative bound counts from the end, and both are
      clipped to the string\<close>
  "slice_index n i = (if i < 0 then nat (max (int n + i) 0) else min (nat i) n)"

definition py_slice :: "string \<Rightarrow> int \<Rightarrow> int \<Rightarrow> string" where
  \<comment> \<open>\<open>s[i:j]\<close>\<close>
  "py_slice s i j =
     (let a = slice_index (length s) i; b = slice_index (length s) j
      in take (b - a) (drop a s))"

definition is_space :: "char \<Rightarrow> bool" where
  \<comment> \<open>the ASCII characters \<open>str.strip\<close> removes\<close>
  "is_space c = (c \<in> set [CHR 0x20, CHR 0x09, CHR 0x0A, CHR 0x0B, CHR 0x0C, CHR 0x0D,
                              CHR 0x1C, CHR 0x1D, CHR 0x1E, CHR 0x1F])"

definition py_strip :: "string \<Rightarrow> string" where
  "py_strip s = rev (dropWhile is_space (rev (dropWhile is_space s)))"

definition py_split_last :: "char \<Rightarrow> string \<Rightarrow> string" where
  \<comment> \<open>\<open>s.split(c)[-1]\<close>: what follows the last \<open>c\<close>, the whole string when there is
      none\<close>
  "py_split_last c s = rev (takeWhile (\<lambda>x. x \<noteq> c) (rev s))"

section \<open>The JSON reader\<close>

text \<open>
  A model of the standard library's \<open>json.loads\<close>, which the extraction step calls:
  the grammar of RFC 8259 with Python's additions (\<open>NaN\<close>, \<open>Infinity\<close>,
  \<open>-Infinity\<close>), strict strings (no raw control character), and the whole input
  consumed up to trailing white space.  \<open>None\<close> stands for the raised decoding error.
  The recursive descent is driven by a fuel counter; the top level supplies more fuel
  than the descent can use (each value and each list item takes at least one
  character and at most two calls).
\<close>

definition dq :: char where "dq = CHR 0x22"
definition bslash :: char where "bslash = CHR 0x5C"

definition is_json_ws :: "char \<Rightarrow> bool" where
  "is_json_ws c = (c \<in> set [CHR 0x20, CHR 0x09, CHR 0x0A, CHR 0x0D])"

definition skip_ws :: "string \<Rightarrow> string" where
  "skip_ws s = dropWhile is_json_ws s"

definition is_digit :: "char \<Rightarrow> bool" where
  "is_digit c = (c \<in> set ''0123456789'')"

definition digit_val :: "char \<Rightarrow> nat" where
  "digit_val c = of_char c - of_char (CHR ''0'')"

definition digits_val :: "string \<Rightarrow> nat" where
  "digits_val ds = foldl (\<lambda>a c. 10 * a + digit_val c) 0 ds"

definition hex_val :: "char \<Rightarrow> nat option" where
  "hex_val c =
     (if is_digit c then Some (digit_val c)
      else if c \<in> set ''abcdef'' then Some (of_char c - of_char (CHR ''a'') + 10)
      else if c \<in> set ''ABCDEF'' then Some (of_char c - of_char (CHR ''A'') + 10)
      else None)"

definition hex4 :: "char \<Rightarrow> char \<Rightarrow> char \<Rightarrow> char \<Rightarrow> nat option" where
  "hex4 a b c d =
     (case (hex_val a, hex_val b, hex_val c, hex_val d) of
        (Some w, Some x, Some y, Some z) \<Rightarrow> Some (((w * 16 + x) * 16 + y) * 16 + z)
      | _ \<Rightarrow> None)"

definition utf8 :: "nat \<Rightarrow> string" where
  \<comment> \<open>the bytes of a code point\<close>
  "utf8 n =
     (if n < 0x80 then [char_of n]
      else if n < 0x800 then [char_of (0xC0 + n div 64), char_of (0x80 + n mod 64)]
      else if n < 0x10000 then
        [char_of (0xE0 + n div 4096), char_of (0x80 + n div 64 mod 64), char_of (0x80 + n mod 64)]
      else
        [char_of (0xF0 + n div 262144), char_of (0x80 + n div 4096 mod 64),
         char_of (0x80 + n div 64 mod 64), char_of (0x80 + n mod 64)])"

definition unescape :: "char \<Rightarrow> char option" where
  "unescape e =
     (if e = dq then Some dq
      else if e = bslash then Some bslash
      else if e = CHR ''/'' then Some (CHR ''/'')
      else if e = CHR ''b'' then Some (CHR 0x08)
      else if e = CHR ''f'' then Some (CHR 0x0C)
      else if e = CHR ''n'' then Some (CHR 0x0A)
      else if e = CHR ''r'' then Some (CHR 0x0D)
      else if e = CHR ''t'' then Some (CHR 0x09)
      else None)"

definition low_surrogate :: "string \<Rightarrow> nat option" where
  \<comment> \<open>the code unit of a \<open>\\uXXXX\<close> escape at the head of the text, when it is a low
      surrogate\<close>
  "low_surrogate s =
     (case s of
        b # u # a1 # a2 # a3 # a4 # _ \<Rightarrow>
          (if b = bslash \<and> u = CHR ''u'' then
             (case hex4 a1 a2 a3 a4 of
                Some lo \<Rightarrow> if 0xDC00 \<le> lo \<and> lo \<le> 0xDFFF then Some lo else None
              | None \<Rightarrow> None)
           else None)
      | _ \<Rightarrow> None)"

definition bad_escape_follows :: "string \<Rightarrow> bool" where
  \<comment> \<open>after a high surrogate, a following \<open>\\u\<close> must carry four hex digits\<close>
  "bad_escape_follows s =
     (case s of
        b # u # rest \<Rightarrow>
          b = bslash \<and> u = CHR ''u'' \<and>
          (case rest of a1 # a2 # a3 # a4 # _ \<Rightarrow> hex4 a1 a2 a3 a4 = None | _ \<Rightarrow> True)
      | _ \<Rightarrow> False)"

fun scan_string :: "string \<Rightarrow> (string \<times> string) option" where
  \<comment> \<open>the text after an opening quote: the decoded string and what follows the closing
      quote\<close>
  "scan_string [] = None"
| "scan_string (c # cs) =
     (if c = dq then Some ([], cs)
      else if c = bslash then
        (case cs of
           [] \<Rightarrow> None
         | e # es \<Rightarrow>
             if e = CHR ''u'' then
               (case es of
                  a1 # a2 # a3 # a4 # r \<Rightarrow>
                    (case hex4 a1 a2 a3 a4 of
                       None \<Rightarrow> None
                     | Some hi \<Rightarrow>
                         if 0xD800 \<le> hi \<and> hi \<le> 0xDBFF \<and> bad_escape_follows r then None
                         else if 0xD800 \<le> hi \<and> hi \<le> 0xDBFF \<and> low_surrogate r \<noteq> None then
                           (case scan_string (drop 6 r) of
                              None \<Rightarrow> None
                            | Some (str, rest) \<Rightarrow>
                                Some (utf8 (0x10000 + (hi - 0xD800) * 1024
                                              + (the (low_surrogate r) - 0xDC00)) @ str, rest))
                         else
                           (case scan_string r of
                              None \<Rightarrow> None
                            | Some (str, rest) \<Rightarrow> Some (utf8 hi @ str, rest)))
                | _ \<Rightarrow> None)
             else
               (case unescape e of
                  None \<Rightarrow> None
                | Some d \<Rightarrow>
                    (case scan_string es of
                       None \<Rightarrow> None
                     | Some (str, rest) \<Rightarrow> Some (d # str, rest))))
      else if (of_char c :: nat) < 0x20 then None
      else
        (case scan_string cs of
           None \<Rightarrow> None
         | Some (str, rest) \<Rightarrow> Some (c # str, rest)))"

definition scan_number :: "string \<Rightarrow> (rat \<times> string) option" where
  \<comment> \<open>the longest prefix matching
      \<open>-?(0|[1-9][0-9]*)(\.[0-9]+)?([eE][-+]?[0-9]+)?\<close> and its value\<close>
  "scan_number s =
     (let neg = (s \<noteq> [] \<and> hd s = CHR ''-'');
          s1 = (if neg then tl s else s)
      in if s1 = [] \<or> \<not> is_digit (hd s1) then None
         else
           let ds = (if hd s1 = CHR ''0'' then ''0'' else takeWhile is_digit s1);
               s2 = drop (length ds) s1;
               fs = (if s2 \<noteq> [] \<and> hd s2 = CHR ''.'' then takeWhile is_digit (tl s2) else []);
               s3 = (if fs = [] then s2 else drop (length fs + 1) s2);
               has_e = (s3 \<noteq> [] \<and> hd s3 \<in> set ''eE'');
               s4 = (if has_e then tl s3 else s3);
               sgn = (s4 \<noteq> [] \<and> hd s4 \<in> set ''+-'');
               s5 = (if sgn then tl s4 else s4);
               es = (if has_e then takeWhile is_digit s5 else []);
               rest = (if es = [] then s3 else drop (length es) s5);
               mant = of_nat (digits_val ds) + of_nat (digits_val fs) / 10 ^ length fs;
               scaled =
                 (if es = [] then mant
                  else if sgn \<and> hd s4 = CHR ''-'' then mant / 10 ^ digits_val es
                  else mant * 10 ^ digits_val es)
           in Some (if neg then - scaled else scaled, rest))"

definition strip_prefix :: "string \<Rightarrow> string \<Rightarrow> string option" where
  "strip_prefix p s = (if take (length p) s = p then Some (drop (length p) s) else None)"

definition py_dict :: "(string \<times> json) list \<Rightarrow> (string \<times> json) list" where
  \<comment> \<open>\<open>dict(pairs)\<close>: a repeated key keeps its first place and takes the last value\<close>
  "py_dict pairs = foldl (\<lambda>d kv. AList.update (fst kv) (snd kv) d) [] pairs"

fun parse_value :: "nat \<Rightarrow> string \<Rightarrow> (json \<times> string) option"
  and parse_items :: "nat \<Rightarrow> string \<Rightarrow> (json list \<times> string) option"
  and parse_members :: "nat \<Rightarrow> string \<Rightarrow> ((string \<times> json) list \<times> string) option"
where
  "parse_value 0 s = None"
| "parse_value (Suc n) s =
     (case s of
        [] \<Rightarrow> None
      | c # cs \<Rightarrow>
          if c = dq then
            (case scan_string cs of None \<Rightarrow> None | Some (str, r) \<Rightarrow> Some (JStr str, r))
          else if c = CHR ''{'' then
            (if skip_ws cs \<noteq> [] \<and> hd (skip_ws cs) = CHR ''}'' then Some (JObj [], tl (skip_ws cs))
             else (case parse_members n (skip_ws cs) of
                     None \<Rightarrow> None
                   | Some (kvs, r) \<Rightarrow> Some (JObj (py_dict kvs), r)))
          else if c = CHR ''['' then
            (if skip_ws cs \<noteq> [] \<and> hd (skip_ws cs) = CHR '']'' then Some (JArr [], tl (skip_ws cs))
             else (case parse_items n (skip_ws cs) of
                     None \<Rightarrow> None
                   | Some (vs, r) \<Rightarrow> Some (JArr vs, r)))
          else if strip_prefix ''null'' s \<noteq> None then Some (JNull, drop 4 s)
          else if strip_prefix ''true'' s \<noteq> None then Some (JBool True, drop 4 s)
          else if strip_prefix ''false'' s \<noteq> None then Some (JBool False, drop 5 s)
          else if scan_number s \<noteq> None then
            (case scan_number s of None \<Rightarrow> None | Some (x, r) \<Rightarrow> Some (JNum x, r))
          else if strip_prefix ''NaN'' s \<noteq> None then Some (JNaN, drop 3 s)
          else if strip_prefix ''Infinity'' s \<noteq> None then Some (JInf True, drop 8 s)
          else if strip_prefix ''-Infinity'' s \<noteq> None then Some (JInf False, drop 9 s)
          else None)"
| "parse_items 0 s = None"
| "parse_items (Suc n) s =
     (case parse_value n s of
        None \<Rightarrow> None
      | Some (v, r) \<Rightarrow>
          (case skip_ws r of
             [] \<Rightarrow> None
           | d # r' \<Rightarrow>
               if d = CHR '']'' then Some ([v], r')
               else if d = CHR '','' then
                 (case parse_items n (skip_ws r') of
                    None \<Rightarrow> None
                  | Some (vs, r'') \<Rightarrow> Some (v # vs, r''))
               else None))"
| "parse_members 0 s = None"
| "parse_members (Suc n) s =
     (case s of
        [] \<Rightarrow> None
      | c # cs \<Rightarrow>
          if c \<noteq> dq then None
          else
            (case scan_string cs of
               None \<Rightarrow> None
             | Some (k, r) \<Rightarrow>
                 (case skip_ws r of
                    [] \<Rightarrow> None
                  | colon # r1 \<Rightarrow>
                      if colon \<noteq> CHR '':'' then None
                      else
                        (case parse_value n (skip_ws r1) of
                           None \<Rightarrow> None
                         | Some (v, r2) \<Rightarrow>
                             (case skip_ws r2 of
                                [] \<Rightarrow> None
                              | d # r3 \<Rightarrow>
                                  if d = CHR ''}'' then Some ([(k, v)], r3)
                                  else if d = CHR '','' then
                                    (case parse_members n (skip_ws r3) of
                                       None \<Rightarrow> None
                                     | Some (kvs, r4) \<Rightarrow> Some ((k, v) # kvs, r4))
                                  else None)))))"

definition json_loads :: "string \<Rightarrow> json option" where
  "json_loads s =
     (case parse_value (2 * length s + 2) (skip_ws s) of
        None \<Rightarrow> None
      | Some (v, r) \<Rightarrow> if skip_ws r = [] then Some v else None)"


section \<open>Image format validation\<close>

text \<open>
  The check shared by \<open>EnhancedPersonaSync._analyze_image\<close> and
  \<open>BailianDeepSeekService.image_analysis\<close>: an empty payload is refused first, then the
  format is normalised or refused.  The result is the format written into the data URL.
\<close>

definition check_image_format :: "string \<Rightarrow> string \<Rightarrow> py_error + string" where
  "check_image_format image_base64 image_format =
     (if image_base64 = [] then Inl ValueError
      else if image_format \<in> set [''jpe'', ''jpg''] then Inr ''jpeg''
      else if image_format \<in> set [''tif'', ''tiff''] then Inr ''tiff''
      else if image_format \<notin> set [''bmp'', ''png'', ''webp'', ''heic''] then Inl ValueError
      else Inr image_format)"

section \<open>The store\<close>

text \<open>
  The tables of \<open>RISDataModel\<close>, each a list of rows in insertion order.  A row keeps
  the columns the modelled code reads or that a property speaks about; the columns
  holding display text or constants (\<open>description\<close>, \<open>emotional_tendencies\<close>,
  \<open>context_info\<close>, \<open>response_history\<close>) are left out.  A column written with
  \<open>json.dumps\<close> and read with \<open>json.loads\<close> holds the value itself, and every column
  gives back the value that was written.  Identifiers (\<open>uuid4\<close>) are drawn from a
  counter, time stamps (\<open>datetime.now\<close>) from a clock that ticks at every reading.
\<close>

record interaction_log =
  log_id :: nat
  log_user_id :: string
  log_timestamp :: nat
  input_type :: string
  detected_emotion :: json
  emotion_label :: json
  response_avatar :: string
  raw_input_data :: json
  processing_metadata :: json

record emotion_analysis =
  analysis_id :: nat
  analysis_log_id :: nat
  pad_values :: json
  emotion_categories :: json
  confidence_scores :: json
  analysis_method :: json
  analysis_created_at :: nat

record persona =
  persona_id :: nat
  persona_user_id :: string
  name :: json
  personality_traits :: json
  communication_style :: json
  interaction_count :: int
  persona_created_at :: nat
  persona_updated_at :: nat
  avatar_type :: json

record memory_event =
  memory_id :: nat
  memory_user_id :: string
  interaction_log_id :: nat
  media_reference :: json
  emotion_annotation :: json
  linked_topic :: json
  memory_type :: json
  importance_score :: json
  memory_created_at :: nat
  tags :: json
  entities :: json

record world =
  user_profiles :: "string list"
  interaction_logs :: "interaction_log list"
  emotion_analyses :: "emotion_analysis list"
  personas :: "persona list"
  memory_events :: "memory_event list"
  uuids :: nat
  clock :: nat
  attempts :: nat

definition init_world :: world where
  "init_world =
     \<lparr>user_profiles = [], interaction_logs = [], emotion_analyses = [], personas = [],
      memory_events = [], uuids = 0, clock = 0, attempts = 0\<rparr>"

definition uuid4 :: "world \<Rightarrow> nat \<times> world" where
  "uuid4 w = (uuids w, w\<lparr>uuids := Suc (uuids w)\<rparr>)"

definition now :: "world \<Rightarrow> nat \<times> world" where
  "now w = (clock w, w\<lparr>clock := Suc (clock w)\<rparr>)"

definition get_user_profile :: "string \<Rightarrow> world \<Rightarrow> bool" where
  \<comment> \<open>whether a profile row is found\<close>
  "get_user_profile u w = (u \<in> set (user_profiles w))"

definition create_user_profile :: "string \<Rightarrow> world \<Rightarrow> world" where
  \<comment> \<open>\<open>INSERT OR REPLACE\<close> on the primary key\<close>
  "create_user_profile u w = w\<lparr>user_profiles := filter (\<lambda>x. x \<noteq> u) (user_profiles w) @ [u]\<rparr>"

definition log_interaction ::
  "string \<Rightarrow> string \<Rightarrow> json \<Rightarrow> json \<Rightarrow> json \<Rightarrow> world \<Rightarrow> nat \<times> world" where
  "log_interaction u itype emo label raw w =
     (let (lid, w1) = uuid4 w;
          (t, w2) = now w1;
          row = \<lparr>log_id = lid, log_user_id = u, log_timestamp = t, input_type = itype,
                 detected_emotion = emo, emotion_label = label, response_avatar = [],
                 raw_input_data = py_or raw (JObj []), processing_metadata = JObj []\<rparr>
      in (lid, w2\<lparr>interaction_logs := interaction_logs w2 @ [row]\<rparr>))"

definition create_memory_event ::
  "string \<Rightarrow> nat \<Rightarrow> json \<Rightarrow> json \<Rightarrow> json \<Rightarrow> json \<Rightarrow> json \<Rightarrow> json \<Rightarrow> json \<Rightarrow> world
     \<Rightarrow> nat \<times> world" where
  \<comment> \<open>the parameters in the order of the signature: \<open>user_id\<close>, \<open>interaction_log_id\<close>,
      \<open>emotion_annotation\<close>, \<open>linked_topic\<close>, \<open>memory_type\<close>, \<open>importance_score\<close>,
      \<open>media_reference\<close>, \<open>tags\<close>, \<open>entities\<close>; \<open>JNull\<close> is \<open>None\<close>\<close>
  "create_memory_event u lid annotation topic mtype score media tgs ents w =
     (let (mid, w1) = uuid4 w;
          (t, w2) = now w1;
          row = \<lparr>memory_id = mid, memory_user_id = u, interaction_log_id = lid,
                 media_reference = py_or media (JStr []), emotion_annotation = annotation,
                 linked_topic = py_or topic (JStr []), memory_type = mtype,
                 importance_score = score, memory_created_at = t,
                 tags = py_or tgs (JArr []), entities = py_or ents (JObj [])\<rparr>
      in (mid, w2\<lparr>memory_events := memory_events w2 @ [row]\<rparr>))"

definition create_persona ::
  "string \<Rightarrow> json \<Rightarrow> json \<Rightarrow> json \<Rightarrow> json \<Rightarrow> world \<Rightarrow> nat \<times> world" where
  "create_persona u nm traits style avatar w =
     (let (pid, w1) = uuid4 w;
          (t, w2) = now w1;
          row = \<lparr>persona_id = pid, persona_user_id = u, name = nm,
                 personality_traits = py_or traits (JArr []),
                 communication_style = py_or style (JStr ''neutral''),
                 interaction_count = 0, persona_created_at = t, persona_updated_at = t,
                 avatar_type = avatar\<rparr>
      in (pid, w2\<lparr>personas := personas w2 @ [row]\<rparr>))"

definition save_emotion_analysis ::
  "nat \<Rightarrow> json \<Rightarrow> json \<Rightarrow> json \<Rightarrow> json \<Rightarrow> world \<Rightarrow> nat \<times> world" where
  "save_emotion_analysis lid pad cats conf meth w =
     (let (aid, w1) = uuid4 w;
          (t, w2) = now w1;
          row = \<lparr>analysis_id = aid, analysis_log_id = lid, pad_values = pad,
                 emotion_categories = cats, confidence_scores = conf,
                 analysis_method = meth, analysis_created_at = t\<rparr>
      in (aid, w2\<lparr>emotion_analyses := emotion_analyses w2 @ [row]\<rparr>))"

definition get_interaction_logs :: "string \<Rightarrow> nat \<Rightarrow> world \<Rightarrow> interaction_log list" where
  \<comment> \<open>\<open>ORDER BY timestamp DESC LIMIT ?\<close>\<close>
  "get_interaction_logs u limit w =
     take limit (rev (sort_key log_timestamp
       (filter (\<lambda>l. log_user_id l = u) (interaction_logs w))))"

definition get_memory_events :: "string \<Rightarrow> nat \<Rightarrow> world \<Rightarrow> memory_event list" where
  \<comment> \<open>without a \<open>memory_type\<close> filter: \<open>ORDER BY created_at DESC LIMIT ?\<close>\<close>
  "get_memory_events u limit w =
     take limit (rev (sort_key memory_created_at
       (filter (\<lambda>m. memory_user_id m = u) (memory_events w))))"

definition get_personas :: "string \<Rightarrow> world \<Rightarrow> persona list" where
  "get_personas u w = filter (\<lambda>p. persona_user_id p = u) (personas w)"

definition json_set :: "json \<Rightarrow> string \<Rightarrow> json \<Rightarrow> json" where
  \<comment> \<open>SQLite's \<open>json_set\<close> on a top-level key of an object\<close>
  "json_set obj k v = (case obj of JObj kvs \<Rightarrow> JObj (AList.update k v kvs) | _ \<Rightarrow> obj)"

definition save_assistant_reply :: "nat \<Rightarrow> string \<Rightarrow> world \<Rightarrow> world" where
  "save_assistant_reply lid reply w =
     w\<lparr>interaction_logs :=
         map (\<lambda>l. if log_id l = lid
                  then l\<lparr>processing_metadata :=
                          json_set (processing_metadata l) ''assistant_reply'' (JStr reply)\<rparr>
                  else l)
             (interaction_logs w)\<rparr>"

definition increment_persona_interaction :: "nat \<Rightarrow> int \<Rightarrow> world \<Rightarrow> world" where
  "increment_persona_interaction pid inc w =
     (let (t, w1) = now w
      in w1\<lparr>personas :=
             map (\<lambda>p. if persona_id p = pid
                      then p\<lparr>interaction_count := interaction_count p + inc,
                             persona_updated_at := t\<rparr>
                      else p)
                 (personas w1)\<rparr>)"

section \<open>The completion client\<close>

text \<open>
  The outside world of one run: what each HTTP attempt answers (numbered over the
  whole run; a success carries the \<open>content\<close> of the first choice, as the endpoint's
  response format has it), the configured number of retries, and the files that can
  be opened.
\<close>

datatype http_result = HttpFail | HttpOk string

record env =
  http :: "nat \<Rightarrow> http_result"
  max_retries :: nat
  files :: "string \<Rightarrow> string option"

fun post_attempts :: "(nat \<Rightarrow> http_result) \<Rightarrow> nat \<Rightarrow> nat \<Rightarrow> (py_error + string) \<times> nat" where
  \<comment> \<open>the loop of \<open>_post\<close>: the attempts left, the number of the next attempt\<close>
  "post_attempts h 0 k = (Inl RuntimeError, k)"
| "post_attempts h (Suc r) k =
     (case h k of
        HttpOk content \<Rightarrow> (Inr content, Suc k)
      | HttpFail \<Rightarrow> post_attempts h r (Suc k))"

definition post :: "env \<Rightarrow> world \<Rightarrow> (py_error + string) \<times> world" where
  "post e w =
     (let (r, k) = post_attempts (http e) (max_retries e + 1) (attempts w)
      in (r, w\<lparr>attempts := k\<rparr>))"

definition chat :: "env \<Rightarrow> world \<Rightarrow> (py_error + string) \<times> world" where
  "chat e w = post e w"

definition chat_with_image :: "env \<Rightarrow> world \<Rightarrow> (py_error + string) \<times> world" where
  "chat_with_image e w = post e w"

section \<open>The extraction step\<close>

definition parse_json_safe :: "string \<Rightarrow> json \<Rightarrow> json" where
  \<comment> \<open>the body of \<open>_ask_json\<close> after the request: the text from the first \<open>{\<close> to the
      last \<open>}\<close> is parsed, and any failure gives the fallback\<close>
  "parse_json_safe txt fallback =
     (let start = py_find txt (CHR ''{''); end = py_rfind txt (CHR ''}'') + 1
      in case json_loads (py_slice txt start end) of
           Some v \<Rightarrow> v
         | None \<Rightarrow> fallback)"

definition ask_json :: "env \<Rightarrow> json \<Rightarrow> world \<Rightarrow> json \<times> world" where
  \<comment> \<open>the request is inside the \<open>try\<close>, so its failure gives the fallback too\<close>
  "ask_json e fallback w =
     (case chat e w of
        (Inl err, w') \<Rightarrow> (fallback, w')
      | (Inr txt, w') \<Rightarrow> (parse_json_safe txt fallback, w'))"


section \<open>The interaction pipeline\<close>

definition default_name :: string where
  "default_name = [CHR 0xE5, CHR 0xB0, CHR 0x8F, CHR 0xE5, CHR 0x8A, CHR 0xA9, CHR 0xE6, CHR 0x89, CHR 0x8B]"

definition default_traits :: json where
  "default_traits =
     JArr [JStr [CHR 0xE5, CHR 0x8F, CHR 0x8B, CHR 0xE5, CHR 0x96, CHR 0x84],
           JStr [CHR 0xE8, CHR 0x80, CHR 0x90, CHR 0xE5, CHR 0xBF, CHR 0x83],
           JStr [CHR 0xE7, CHR 0x90, CHR 0x86, CHR 0xE8, CHR 0xA7, CHR 0xA3],
           JStr [CHR 0xE6, CHR 0x94, CHR 0xAF, CHR 0xE6, CHR 0x8C, CHR 0x81]]"

definition default_style :: json where
  "default_style = JStr [CHR 0xE6, CHR 0xB8, CHR 0xA9, CHR 0xE5, CHR 0x92, CHR 0x8C]"

definition emotion_fallback :: json where
  "emotion_fallback =
     JObj [(''pad_values'',
              JObj [(''pleasure'', JNum (1 / 2)), (''arousal'', JNum (1 / 2)),
                    (''dominance'', JNum (1 / 2))]),
           (''emotion_category'',
              JObj [(''label'', JStr ''neutral''), (''emotion'', JStr ''neutral''),
                    (''intensity'', JNum 0)]),
           (''analysis_method'', JStr ''fallback'')]"

definition JSON_FALLBACK_ENTITIES :: json where
  "JSON_FALLBACK_ENTITIES =
     JObj (map (\<lambda>k. (k, JArr []))
       [''persons'', ''locations'', ''time_expressions'', ''events'', ''organizations''])"

definition persona_fallback :: json where
  "persona_fallback =
     JObj [(''personality_traits'',
              JArr [JStr [CHR 0xE6, CHR 0x99, CHR 0xAE, CHR 0xE9, CHR 0x80, CHR 0x9A]]),
           (''avatar_type'', JStr ''friend'')]"

definition topic_fallback :: json where
  "topic_fallback =
     JObj [(''topic'', JStr [CHR 0xE6, CHR 0x97, CHR 0xA5, CHR 0xE5, CHR 0xB8, CHR 0xB8,
                             CHR 0xE5, CHR 0xAF, CHR 0xB9, CHR 0xE8, CHR 0xAF, CHR 0x9D])]"

definition score_fallback :: json where
  "score_fallback = JObj [(''score'', JNum (1 / 2))]"

definition image_text_head :: string where
  "image_text_head =
     [CHR 0xE6, CHR 0x88, CHR 0x91, CHR 0xE5, CHR 0x90, CHR 0x91, CHR 0xE4, CHR 0xBD, CHR 0xA0,
      CHR 0xE6, CHR 0x8F, CHR 0x90, CHR 0xE4, CHR 0xBE, CHR 0x9B, CHR 0xE4, CHR 0xBA, CHR 0x86,
      CHR 0xE4, CHR 0xB8, CHR 0x80, CHR 0xE5, CHR 0xBC, CHR 0xA0, CHR 0xE5, CHR 0x9B, CHR 0xBE,
      CHR 0xE7, CHR 0x89, CHR 0x87, CHR 0xEF, CHR 0xBC, CHR 0x9A, CHR 0x0A]"

definition image_text_middle :: string where
  "image_text_middle =
     [CHR 0x0A, CHR 0x0A, CHR 0xE5, CHR 0x90, CHR 0x8C, CHR 0xE6, CHR 0x97, CHR 0xB6, CHR 0xE6,
      CHR 0x88, CHR 0x91, CHR 0xE5, CHR 0x91, CHR 0x8A, CHR 0xE8, CHR 0xAF, CHR 0x89, CHR 0xE4,
      CHR 0xBD, CHR 0xA0, CHR 0xE8, CHR 0xBF, CHR 0x99, CHR 0xE6, CHR 0xAE, CHR 0xB5, CHR 0xE6,
      CHR 0x96, CHR 0x87, CHR 0xE5, CHR 0xAD, CHR 0x97, CHR 0xEF, CHR 0xBC, CHR 0x9A, CHR 0x0A]"

definition analyze_emotion :: "env \<Rightarrow> world \<Rightarrow> json \<times> world" where
  "analyze_emotion e w = ask_json e emotion_fallback w"

definition extract_entities :: "env \<Rightarrow> world \<Rightarrow> json \<times> world" where
  "extract_entities e w = ask_json e JSON_FALLBACK_ENTITIES w"

definition analyze_style :: "env \<Rightarrow> world \<Rightarrow> json \<times> world" where
  "analyze_style e w = ask_json e (JObj []) w"

definition extract_temporal :: "env \<Rightarrow> world \<Rightarrow> json \<times> world" where
  "extract_temporal e w = ask_json e (JObj []) w"

definition analyze_image :: "env \<Rightarrow> string \<Rightarrow> world \<Rightarrow> (py_error + string) \<times> world" where
  \<comment> \<open>the Base64 text of a file is empty exactly when the file is, so the bytes of the
      file stand for it\<close>
  "analyze_image e image_path w =
     (case files e image_path of
        None \<Rightarrow> (Inl OSError, w)
      | Some image_base64 \<Rightarrow>
          (case check_image_format image_base64 (py_split_last (CHR ''.'') image_path) of
             Inl err \<Rightarrow> (Inl err, w)
           | Inr image_format \<Rightarrow>
               (case chat_with_image e w of
                  (Inl err, w') \<Rightarrow> (Inl err, w')
                | (Inr content, w') \<Rightarrow> (Inr (py_strip content), w'))))"

fun find_default :: "persona list \<Rightarrow> persona option" where
  \<comment> \<open>the first persona carrying the default name\<close>
  "find_default [] = None"
| "find_default (p # ps) = (if name p = JStr default_name then Some p else find_default ps)"

definition ensure_default_persona :: "string \<Rightarrow> world \<Rightarrow> nat \<times> world" where
  "ensure_default_persona u w =
     (case find_default (get_personas u w) of
        Some p \<Rightarrow> (persona_id p, w)
      | None \<Rightarrow> create_persona u (JStr default_name) default_traits default_style (JStr ''friend'') w)"

record new_persona =
  new_persona_id :: nat
  new_persona_info :: json
  new_persona_name :: json

fun create_personas_loop ::
  "env \<Rightarrow> string \<Rightarrow> json \<Rightarrow> json list \<Rightarrow> new_persona list \<Rightarrow> world
     \<Rightarrow> (py_error + new_persona list) \<times> world" where
  "create_personas_loop e u style [] new_list w = (Inr new_list, w)"
| "create_personas_loop e u style (nm # names) new_list w =
     (if list_ex (\<lambda>p. name p = nm) (get_personas u w)
      then create_personas_loop e u style names new_list w
      else
        (case ask_json e persona_fallback w of
           (info, w1) \<Rightarrow>
             (case py_index info ''personality_traits'' of
                Inl err \<Rightarrow> (Inl err, w1)
              | Inr traits \<Rightarrow>
                  (case py_get style ''formality'' (JStr ''neutral'') of
                     Inl err \<Rightarrow> (Inl err, w1)
                   | Inr cstyle \<Rightarrow>
                       (case py_get info ''avatar_type'' (JStr ''friend'') of
                          Inl err \<Rightarrow> (Inl err, w1)
                        | Inr avatar \<Rightarrow>
                            (case create_persona u nm traits cstyle avatar w1 of
                               (pid, w2) \<Rightarrow>
                                 create_personas_loop e u style names
                                   (new_list @ [\<lparr>new_persona_id = pid, new_persona_info = info,
                                                 new_persona_name = nm\<rparr>]) w2))))))"

definition create_personas ::
  "env \<Rightarrow> string \<Rightarrow> json \<Rightarrow> json \<Rightarrow> world \<Rightarrow> (py_error + new_persona list) \<times> world" where
  "create_personas e u ents style w =
     (case py_get ents ''persons'' (JArr []) of
        Inl err \<Rightarrow> (Inl err, w)
      | Inr persons \<Rightarrow>
          (case py_iter persons of
             Inl err \<Rightarrow> (Inl err, w)
           | Inr names \<Rightarrow> create_personas_loop e u style names [] w))"

definition is_substring :: "string \<Rightarrow> string \<Rightarrow> bool" where
  "is_substring t s = list_ex (\<lambda>i. take (length t) (drop i s) = t) [0..<Suc (length s)]"

fun py_in :: "json \<Rightarrow> json \<Rightarrow> py_error + bool" where
  \<comment> \<open>\<open>x in c\<close>: membership in a list, substring of a string, key of a dict\<close>
  "py_in x (JArr xs) = Inr (x \<in> set xs)"
| "py_in x (JStr s) = (case x of JStr t \<Rightarrow> Inr (is_substring t s) | _ \<Rightarrow> Inl TypeError)"
| "py_in x (JObj kvs) =
     (case x of
        JStr k \<Rightarrow> Inr (k \<in> set (map fst kvs))
      | JArr _ \<Rightarrow> Inl TypeError
      | JObj _ \<Rightarrow> Inl TypeError
      | _ \<Rightarrow> Inr False)"
| "py_in x _ = Inl TypeError"

fun filter_mentioned :: "json \<Rightarrow> persona list \<Rightarrow> py_error + persona list" where
  \<comment> \<open>the comprehension of \<open>_update_personas\<close>\<close>
  "filter_mentioned persons [] = Inr []"
| "filter_mentioned persons (p # ps) =
     (case py_in (name p) persons of
        Inl err \<Rightarrow> Inl err
      | Inr b \<Rightarrow>
          (case filter_mentioned persons ps of
             Inl err \<Rightarrow> Inl err
           | Inr r \<Rightarrow> Inr (if b then p # r else r)))"

definition update_personas :: "string \<Rightarrow> json \<Rightarrow> world \<Rightarrow> py_error + persona list" where
  "update_personas u ents w =
     (if get_personas u w = [] then Inr []
      else case py_get ents ''persons'' (JArr []) of
             Inl err \<Rightarrow> Inl err
           | Inr persons \<Rightarrow> filter_mentioned persons (get_personas u w))"

definition emotion_label_of :: "json \<Rightarrow> py_error + json" where
  \<comment> \<open>\<open>pad.get("emotion_category", {}).get("label", "neutral")\<close>\<close>
  "emotion_label_of pad =
     (case py_get pad ''emotion_category'' (JObj []) of
        Inl err \<Rightarrow> Inl err
      | Inr cat \<Rightarrow> py_get cat ''label'' (JStr ''neutral''))"

record new_memory =
  new_memory_id :: nat
  new_memory_topic :: json
  new_memory_importance_score :: json
  new_memory_entities :: json
  new_memory_temporal :: json

definition create_memories ::
  "env \<Rightarrow> string \<Rightarrow> nat \<Rightarrow> json \<Rightarrow> json \<Rightarrow> json \<Rightarrow> world
     \<Rightarrow> (py_error + new_memory list) \<times> world" where
  \<comment> \<open>the call of \<open>create_memory_event\<close> is positional: the empty list lands on
      \<open>media_reference\<close>, the entities on \<open>tags\<close>, and \<open>entities\<close> keeps its default\<close>
  "create_memories e u lid ents pad temporal w =
     (case ask_json e topic_fallback w of
        (t, w1) \<Rightarrow>
          (case py_index t ''topic'' of
             Inl err \<Rightarrow> (Inl err, w1)
           | Inr topic \<Rightarrow>
               (case ask_json e score_fallback w1 of
                  (sc, w2) \<Rightarrow>
                    (case py_index sc ''score'' of
                       Inl err \<Rightarrow> (Inl err, w2)
                     | Inr score \<Rightarrow>
                         (case emotion_label_of pad of
                            Inl err \<Rightarrow> (Inl err, w2)
                          | Inr label \<Rightarrow>
                              (case create_memory_event u lid pad topic label score
                                      (JArr []) ents JNull w2 of
                                 (mid, w3) \<Rightarrow>
                                   (Inr [\<lparr>new_memory_id = mid, new_memory_topic = topic,
                                          new_memory_importance_score = score,
                                          new_memory_entities = ents,
                                          new_memory_temporal = temporal\<rparr>], w3)))))))"

fun find_persona :: "nat \<Rightarrow> persona list \<Rightarrow> persona option" where
  \<comment> \<open>\<open>next((p for p in personas if p["persona_id"] == persona_id), None)\<close>\<close>
  "find_persona pid [] = None"
| "find_persona pid (p # ps) = (if persona_id p = pid then Some p else find_persona pid ps)"

fun join_check :: "json \<Rightarrow> py_error + unit" where
  \<comment> \<open>\<open>', '.join(v)\<close> wants an iterable of strings\<close>
  "join_check (JArr xs) = (if list_all (\<lambda>x. case x of JStr _ \<Rightarrow> True | _ \<Rightarrow> False) xs
                           then Inr () else Inl TypeError)"
| "join_check (JStr s) = Inr ()"
| "join_check (JObj kvs) = Inr ()"
| "join_check _ = Inl TypeError"

fun ge_threshold :: "json \<Rightarrow> rat \<Rightarrow> py_error + bool" where
  \<comment> \<open>\<open>v >= x\<close> for a float \<open>x\<close>\<close>
  "ge_threshold (JNum r) x = Inr (r \<ge> x)"
| "ge_threshold (JBool b) x = Inr ((if b then 1 else 0) \<ge> x)"
| "ge_threshold JNaN x = Inr False"
| "ge_threshold (JInf pos) x = Inr pos"
| "ge_threshold _ x = Inl TypeError"

fun important_memories :: "memory_event list \<Rightarrow> py_error + memory_event list" where
  \<comment> \<open>\<open>[m for m in ... if m["importance_score"] >= 0.7]\<close>\<close>
  "important_memories [] = Inr []"
| "important_memories (m # ms) =
     (case ge_threshold (importance_score m) (7 / 10) of
        Inl err \<Rightarrow> Inl err
      | Inr b \<Rightarrow>
          (case important_memories ms of
             Inl err \<Rightarrow> Inl err
           | Inr r \<Rightarrow> Inr (if b then m # r else r)))"

record reply_result =
  reply_text :: string
  speaker_persona :: nat
  used_memories :: "nat list"

definition get_response_to_interaction ::
  "env \<Rightarrow> string \<Rightarrow> nat option \<Rightarrow> world \<Rightarrow> (py_error + reply_result) \<times> world" where
  "get_response_to_interaction e u pid_opt w =
     (if get_personas u w = [] then
        (case ensure_default_persona u w of (_, w1) \<Rightarrow> (Inl UnboundLocalError, w1))
      else
        let ps = get_personas u w;
            chosen = (case pid_opt of None \<Rightarrow> None | Some pid \<Rightarrow> find_persona pid ps);
            speaker = (case chosen of
                         Some p \<Rightarrow> p
                       | None \<Rightarrow> (case find_default ps of Some p \<Rightarrow> p | None \<Rightarrow> hd ps))
        in case join_check (personality_traits speaker) of
             Inl err \<Rightarrow> (Inl err, w)
           | Inr _ \<Rightarrow>
               let recent_logs = get_interaction_logs u 5 w
               in case important_memories (get_memory_events u 20 w) of
                    Inl err \<Rightarrow> (Inl err, w)
                  | Inr important \<Rightarrow>
                      let memories = take 3 important
                      in case chat e w of
                           (Inl err, w1) \<Rightarrow> (Inl err, w1)
                         | (Inr content, w1) \<Rightarrow>
                             let reply = py_strip content;
                                 w2 = (case recent_logs of
                                         [] \<Rightarrow> w1
                                       | l # _ \<Rightarrow> save_assistant_reply (log_id l) reply w1);
                                 w3 = increment_persona_interaction (persona_id speaker) 1 w2
                             in (Inr \<lparr>reply_text = reply, speaker_persona = persona_id speaker,
                                      used_memories = map memory_id memories\<rparr>, w3))"

record interaction_result =
  result_log_id :: nat
  pad_analysis :: json
  result_entities :: json
  new_personas :: "new_persona list"
  updated_personas :: "persona list"
  new_memories :: "new_memory list"
  result_timestamp :: nat
  reply :: reply_result

text \<open>
  \<open>process_interaction\<close> in three parts, so that the world in which a stage starts can
  be named: the bootstrap of user and default persona with the optional image
  grounding, the stages from the emotion analysis to the memory, and the reply.
\<close>

definition bootstrap :: "string \<Rightarrow> world \<Rightarrow> world" where
  "bootstrap u w =
     snd (ensure_default_persona u (if get_user_profile u w then w else create_user_profile u w))"

definition ground_image ::
  "env \<Rightarrow> string \<Rightarrow> string option \<Rightarrow> world \<Rightarrow> (py_error + string \<times> json) \<times> world" where
  \<comment> \<open>the text handed to the later stages and the value stored under \<open>"image"\<close>; an
      empty path counts as none\<close>
  "ground_image e text image_path w =
     (case image_path of
        None \<Rightarrow> (Inr (text, JNull), w)
      | Some path \<Rightarrow>
          if path = [] then (Inr (text, JNull), w)
          else
            (case analyze_image e path w of
               (Inl err, w') \<Rightarrow> (Inl err, w')
             | (Inr image_content, w') \<Rightarrow>
                 (Inr (image_text_head @ image_content @ image_text_middle @ text,
                       JStr image_content), w')))"

record analysis =
  analysis_log :: nat
  analysis_pad :: json
  analysis_entities :: json
  analysis_new_personas :: "new_persona list"
  analysis_updated_personas :: "persona list"
  analysis_memories :: "new_memory list"

definition analyse_and_store ::
  "env \<Rightarrow> string \<Rightarrow> string \<Rightarrow> string \<Rightarrow> json \<Rightarrow> world \<Rightarrow> (py_error + analysis) \<times> world" where
  \<comment> \<open>from \<open>_analyze_emotion\<close> to \<open>_create_memories\<close>\<close>
  "analyse_and_store e u text itype img w =
     (case analyze_emotion e w of
        (pad, w1) \<Rightarrow>
          (case py_get pad ''pad_values'' (JObj []) of
             Inl err \<Rightarrow> (Inl err, w1)
           | Inr pv \<Rightarrow>
          (case emotion_label_of pad of
             Inl err \<Rightarrow> (Inl err, w1)
           | Inr label \<Rightarrow>
          (case log_interaction u itype pv label
                  (JObj [(''text'', JStr text), (''image'', img)]) w1 of
             (lid, w2) \<Rightarrow>
          (case py_get pad ''emotion_category'' (JObj []) of
             Inl err \<Rightarrow> (Inl err, w2)
           | Inr cat \<Rightarrow>
          (case py_get pad ''confidence'' (JNum (1 / 2)) of
             Inl err \<Rightarrow> (Inl err, w2)
           | Inr conf \<Rightarrow>
          (case py_get pad ''analysis_method'' (JStr ''llm'') of
             Inl err \<Rightarrow> (Inl err, w2)
           | Inr meth \<Rightarrow>
          (case save_emotion_analysis lid pv cat (JObj [(''confidence'', conf)]) meth w2 of
             (_, w3) \<Rightarrow>
          (case extract_entities e w3 of
             (ents, w4) \<Rightarrow>
          (case analyze_style e w4 of
             (style, w5) \<Rightarrow>
          (case extract_temporal e w5 of
             (temporal, w6) \<Rightarrow>
          (case create_personas e u ents style w6 of
             (Inl err, w7) \<Rightarrow> (Inl err, w7)
           | (Inr new_ps, w7) \<Rightarrow>
          (case update_personas u ents w7 of
             Inl err \<Rightarrow> (Inl err, w7)
           | Inr upd_ps \<Rightarrow>
          (case create_memories e u lid ents pad temporal w7 of
             (Inl err, w8) \<Rightarrow> (Inl err, w8)
           | (Inr memories, w8) \<Rightarrow>
               (Inr \<lparr>analysis_log = lid, analysis_pad = pad, analysis_entities = ents,
                     analysis_new_personas = new_ps, analysis_updated_personas = upd_ps,
                     analysis_memories = memories\<rparr>, w8)))))))))))))))"

definition process_interaction ::
  "env \<Rightarrow> string \<Rightarrow> string \<Rightarrow> string \<Rightarrow> string option \<Rightarrow> nat option \<Rightarrow> world
     \<Rightarrow> (py_error + interaction_result) \<times> world" where
  \<comment> \<open>\<open>image_path\<close> and \<open>persona_id\<close> are optional\<close>
  "process_interaction e u text itype image_path pid_opt w =
     (case ground_image e text image_path (bootstrap u w) of
        (Inl err, w0) \<Rightarrow> (Inl err, w0)
      | (Inr (text', img), w0) \<Rightarrow>
          (case analyse_and_store e u text' itype img w0 of
             (Inl err, w8) \<Rightarrow> (Inl err, w8)
           | (Inr a, w8) \<Rightarrow>
               (case get_response_to_interaction e u pid_opt w8 of
                  (Inl err, w9) \<Rightarrow> (Inl err, w9)
                | (Inr rep, w9) \<Rightarrow>
                    (case now w9 of
                       (t, w10) \<Rightarrow>
                         (Inr \<lparr>result_log_id = analysis_log a, pad_analysis = analysis_pad a,
                               result_entities = analysis_entities a,
                               new_personas = analysis_new_personas a,
                               updated_personas = analysis_updated_personas a,
                               new_memories = analysis_memories a, result_timestamp = t,
                               reply = rep\<rparr>, w10)))))"



section \<open>The report generator\<close>

text \<open>
  The part of \<open>EmotionReportGenerator._generate_summary\<close> that finds the dominant
  emotion: the three counters in the order the dict literal gives them, one increment
  per memory (a memory type that is no key of the dict raises), and \<open>max\<close> with the
  count as key, which keeps the first of several largest.
\<close>

fun bump_count :: "(string \<times> nat) list \<Rightarrow> json \<Rightarrow> py_error + (string \<times> nat) list" where
  \<comment> \<open>\<open>emotion_counts[memory_type] += 1\<close>\<close>
  "bump_count counts (JStr k) =
     (case map_of counts k of
        None \<Rightarrow> Inl KeyError
      | Some c \<Rightarrow> Inr (AList.update k (Suc c) counts))"
| "bump_count counts (JArr _) = Inl TypeError"
| "bump_count counts (JObj _) = Inl TypeError"
| "bump_count counts _ = Inl KeyError"

fun count_memory_types ::
  "(string \<times> nat) list \<Rightarrow> memory_event list \<Rightarrow> py_error + (string \<times> nat) list" where
  "count_memory_types counts [] = Inr counts"
| "count_memory_types counts (m # ms) =
     (case bump_count counts (memory_type m) of
        Inl err \<Rightarrow> Inl err
      | Inr counts' \<Rightarrow> count_memory_types counts' ms)"

fun max_from :: "string \<Rightarrow> nat \<Rightarrow> (string \<times> nat) list \<Rightarrow> string" where
  \<comment> \<open>the scan of \<open>max(d, key=d.get)\<close>: a later key replaces the best one only when its
      count is strictly larger\<close>
  "max_from best c [] = best"
| "max_from best c ((k, n) # rest) = (if n > c then max_from k n rest else max_from best c rest)"

definition dominant_emotion :: "memory_event list \<Rightarrow> py_error + string" where
  "dominant_emotion memories =
     (case count_memory_types [(''positive'', 0), (''negative'', 0), (''neutral'', 0)] memories of
        Inl err \<Rightarrow> Inl err
      | Inr counts \<Rightarrow>
          (case counts of
             [] \<Rightarrow> Inr ''neutral''
           | (k, n) # rest \<Rightarrow> Inr (max_from k n rest)))"

text \<open>
  \<open>EmotionReportGenerator._calculate_emotion_trend\<close>.  The trajectory is a dict from
  the ISO date to that day's ratios, here an association list with distinct keys over
  any linearly ordered type of dates.  \<open>np.polyfit(range(n), values, 1)[0]\<close> is the
  slope of the least-squares line through the points \<open>(i, values[i])\<close>, taken here in
  exact arithmetic.
\<close>

record day_stats =
  positive_ratio :: rat
  negative_ratio :: rat
  neutral_ratio :: rat
  total_interactions :: nat

definition polyfit_slope :: "rat list \<Rightarrow> rat" where
  "polyfit_slope ys =
     (let n = length ys;
          sx = (\<Sum>i<n. of_nat i);
          sy = (\<Sum>i<n. ys ! i);
          sxy = (\<Sum>i<n. of_nat i * ys ! i);
          sxx = (\<Sum>i<n. of_nat i * of_nat i)
      in (of_nat n * sxy - sx * sy) / (of_nat n * sxx - sx * sx))"

datatype trend =
    No_data
  | Insufficient_data
  | Trend (positive_trend: rat) (negative_trend: rat) (overall_trend: string) (trend_strength: rat)

definition ratios_by_date :: "('d::linorder \<times> day_stats) list \<Rightarrow> (day_stats \<Rightarrow> rat) \<Rightarrow> rat list" where
  \<comment> \<open>\<open>[trajectory[date][field] for date in sorted(trajectory.keys())]\<close>\<close>
  "ratios_by_date trajectory field =
     map (\<lambda>d. case map_of trajectory d of Some st \<Rightarrow> field st | None \<Rightarrow> 0)
         (sort (map fst trajectory))"

definition calculate_emotion_trend :: "('d::linorder \<times> day_stats) list \<Rightarrow> trend" where
  "calculate_emotion_trend trajectory =
     (if trajectory = [] then No_data
      else if length (sort (map fst trajectory)) < 2 then Insufficient_data
      else
        let pos = polyfit_slope (ratios_by_date trajectory positive_ratio);
            neg = polyfit_slope (ratios_by_date trajectory negative_ratio)
        in Trend pos neg
             (if pos > 1 / 100 then ''improving''
              else if pos < - (1 / 100) then ''declining''
              else ''stable'')
             (abs pos))"


section \<open>Notions the properties are stated with\<close>

definition known_type :: "memory_event \<Rightarrow> bool" where
  \<comment> \<open>the memory type is one of the three counters\<close>
  "known_type m = (memory_type m \<in> set [JStr ''positive'', JStr ''negative'', JStr ''neutral''])"

definition count_type :: "string \<Rightarrow> memory_event list \<Rightarrow> nat" where
  "count_type k ms = length (filter (\<lambda>m. memory_type m = JStr k) ms)"

definition argmax_in_order :: "nat \<Rightarrow> nat \<Rightarrow> nat \<Rightarrow> string" where
  \<comment> \<open>the largest of the three counts, a tie going to the earlier of positive, negative,
      neutral\<close>
  "argmax_in_order p n u =
     (if n \<le> p \<and> u \<le> p then ''positive'' else if u \<le> n then ''negative'' else ''neutral'')"

definition memory_of_type :: "json \<Rightarrow> memory_event" where
  \<comment> \<open>a memory row of the given type, for examples\<close>
  "memory_of_type t =
     \<lparr>memory_id = 0, memory_user_id = ''u1'', interaction_log_id = 0,
      media_reference = JStr [], emotion_annotation = JObj [], linked_topic = JStr [],
      memory_type = t, importance_score = JNum (1 / 2), memory_created_at = 0,
      tags = JArr [], entities = JObj []\<rparr>"

definition spec_normalize :: "string \<Rightarrow> string" where
  \<comment> \<open>the aliases as the specification lists them\<close>
  "spec_normalize f = (if f = ''jpg'' then ''jpeg'' else if f = ''tif'' then ''tiff'' else f)"

definition spec_allowed :: "string \<Rightarrow> bool" where
  \<comment> \<open>the specification's acceptance rule: in the allow-list after normalisation\<close>
  "spec_allowed f =
     (spec_normalize f \<in> set [''jpeg'', ''png'', ''bmp'', ''webp'', ''heic'', ''tiff''])"

definition accepted_formats :: "string list" where
  \<comment> \<open>the formats the check lets through\<close>
  "accepted_formats = [''jpe'', ''jpg'', ''tif'', ''tiff'', ''bmp'', ''png'', ''webp'', ''heic'']"

definition gif_env :: env where
  \<comment> \<open>an outside world for examples: two image files and an endpoint that answers\<close>
  "gif_env = \<lparr>http = (\<lambda>n. HttpOk ''a cat''), max_retries = 2,
              files = (\<lambda>p. if p = ''cat.gif'' \<or> p = ''cat.png'' then Some ''GIF89a'' else None)\<rparr>"

fun balanced :: "nat \<Rightarrow> string \<Rightarrow> bool" where
  \<comment> \<open>the braces of the text nest properly, starting at the given depth\<close>
  "balanced d [] = (d = 0)"
| "balanced d (c # cs) =
     (if c = CHR ''{'' then balanced (Suc d) cs
      else if c = CHR ''}'' then 0 < d \<and> balanced (d - 1) cs
      else balanced d cs)"

definition braced :: "string \<Rightarrow> bool" where
  \<comment> \<open>an opening brace, a balanced text, a closing brace\<close>
  "braced s =
     (2 \<le> length s \<and> hd s = CHR ''{'' \<and> last s = CHR ''}'' \<and> balanced 0 (butlast (tl s)))"

definition has_balanced_braces :: "string \<Rightarrow> bool" where
  \<comment> \<open>the text contains a balanced \<open>{...}\<close> substring\<close>
  "has_balanced_braces txt =
     list_ex (\<lambda>i. list_ex (\<lambda>j. braced (take (j - i) (drop i txt))) [i..<Suc (length txt)])
       [0..<length txt]"

definition braces_slice :: "string \<Rightarrow> string" where
  \<comment> \<open>the text the extraction step hands to the JSON reader\<close>
  "braces_slice txt = py_slice txt (py_find txt (CHR ''{'')) (py_rfind txt (CHR ''}'') + 1)"

definition quoted :: "string \<Rightarrow> string" where
  \<comment> \<open>a JSON string literal without escapes, for examples\<close>
  "quoted s = dq # s @ [dq]"

definition score_reply :: string where
  \<comment> \<open>a model response with prose around the object\<close>
  "score_reply = ''Sure: {'' @ quoted ''score'' @ '': 7} as asked''"

definition slope_num :: "(nat \<Rightarrow> rat) \<Rightarrow> nat \<Rightarrow> rat" where
  \<comment> \<open>the numerator of the least-squares slope through \<open>(i, y i)\<close>, \<open>i < n\<close>\<close>
  "slope_num y n = of_nat n * (\<Sum>i<n. of_nat i * y i) - (\<Sum>i<n. of_nat i) * (\<Sum>i<n. y i)"

definition slope_den :: "nat \<Rightarrow> rat" where
  \<comment> \<open>its denominator\<close>
  "slope_den n = of_nat n * (\<Sum>i<n. of_nat i * of_nat i) - (\<Sum>i<n. of_nat i) * (\<Sum>i<n. of_nat i)"

definition rises_by :: "rat \<Rightarrow> rat list \<Rightarrow> bool" where
  \<comment> \<open>every value exceeds the one before it by more than \<open>d\<close>\<close>
  "rises_by d ys = (\<forall>i. Suc i < length ys \<longrightarrow> ys ! i + d < ys ! Suc i)"

definition falls_by :: "rat \<Rightarrow> rat list \<Rightarrow> bool" where
  \<comment> \<open>every value is below the one before it by more than \<open>d\<close>\<close>
  "falls_by d ys = (\<forall>i. Suc i < length ys \<longrightarrow> ys ! Suc i + d < ys ! i)"

definition constant_list :: "rat list \<Rightarrow> bool" where
  "constant_list ys = (\<forall>i. Suc i < length ys \<longrightarrow> ys ! Suc i = ys ! i)"

definition day :: "nat \<Rightarrow> nat \<Rightarrow> day_stats" where
  \<comment> \<open>a day of \<open>n\<close> interactions of which \<open>pos\<close> are positive and the rest neutral, for
      examples\<close>
  "day pos n =
     \<lparr>positive_ratio = of_nat pos / of_nat n, negative_ratio = 0,
      neutral_ratio = of_nat (n - pos) / of_nat n, total_interactions = n\<rparr>"

definition rising_days :: "(nat \<times> day_stats) list" where
  \<comment> \<open>three dates, given out of order, with positive ratios 1/4, 2/4, 3/4 by date\<close>
  "rising_days = [(3, day 3 4), (1, day 1 4), (2, day 2 4)]"

definition falling_days :: "(nat \<times> day_stats) list" where
  "falling_days = [(1, day 3 4), (2, day 2 4), (3, day 1 4)]"

definition steady_days :: "(nat \<times> day_stats) list" where
  "steady_days = [(1, day 1 2), (2, day 2 4), (3, day 3 6)]"

definition same_tables :: "world \<Rightarrow> world \<Rightarrow> bool" where
  \<comment> \<open>the second world differs from the first at most in the count of HTTP attempts\<close>
  "same_tables w w' = (\<exists>k. w' = w\<lparr>attempts := k\<rparr>)"



definition extraction_fails :: "env \<Rightarrow> world \<Rightarrow> bool" where
  \<comment> \<open>the request issued in this world fails, or its answer has no parseable text between
      the first \<open>{\<close> and the last \<open>}\<close>\<close>
  "extraction_fails e w =
     (case fst (chat e w) of
        Inl err \<Rightarrow> True
      | Inr txt \<Rightarrow> json_loads (braces_slice txt) = None)"

definition log_core :: "interaction_log \<Rightarrow> interaction_log" where
  \<comment> \<open>a log row without its metadata, the one column written after the insert\<close>
  "log_core l = l\<lparr>processing_metadata := JNull\<rparr>"

definition persona_core :: "persona \<Rightarrow> persona" where
  \<comment> \<open>a persona row without its interaction counter and update time\<close>
  "persona_core p = p\<lparr>interaction_count := 0, persona_updated_at := 0\<rparr>"

definition neutral_pad :: json where
  "neutral_pad =
     JObj [(''pleasure'', JNum (1 / 2)), (''arousal'', JNum (1 / 2)), (''dominance'', JNum (1 / 2))]"

definition neutral_category :: json where
  "neutral_category =
     JObj [(''label'', JStr ''neutral''), (''emotion'', JStr ''neutral''), (''intensity'', JNum 0)]"

definition plain_env :: env where
  \<comment> \<open>an endpoint that answers every request with prose\<close>
  "plain_env = \<lparr>http = (\<lambda>n. HttpOk ''I am fine, thanks.''), max_retries = 2, files = (\<lambda>p. None)\<rparr>"



definition alice_reply :: string where
  \<comment> \<open>an entity extraction naming a person and a place\<close>
  "alice_reply =
     ''{'' @ quoted ''persons'' @ '': ['' @ quoted ''Alice'' @ ''], ''
        @ quoted ''locations'' @ '': ['' @ quoted ''Paris'' @ '']}''"

definition alice_env :: env where
  \<comment> \<open>the second request (the entity extraction) is answered with \<open>alice_reply\<close>, every
      other request with prose\<close>
  "alice_env =
     \<lparr>http = (\<lambda>n. if n = 1 then HttpOk alice_reply else HttpOk ''I am fine, thanks.''),
      max_retries = 2, files = (\<lambda>p. None)\<rparr>"








definition plain_run :: "(py_error + interaction_result) \<times> world" where
  \<comment> \<open>a first interaction with an endpoint that only answers with prose\<close>
  "plain_run = process_interaction plain_env ''u1'' ''hello'' ''topic'' None None init_world"



section \<open>Verified properties\<close>

subsection \<open>The dominant emotion of a report\<close>

lemma count_memory_types_known:
  "list_all known_type ms \<Longrightarrow>
   count_memory_types [(''positive'', a), (''negative'', b), (''neutral'', c)] ms =
     Inr [(''positive'', a + count_type ''positive'' ms),
          (''negative'', b + count_type ''negative'' ms),
          (''neutral'', c + count_type ''neutral'' ms)]"
proof (induction ms arbitrary: a b c)
  case Nil
  then show ?case by (simp add: count_type_def)
next
  case (Cons m ms)
  from Cons.prems have k: "known_type m" and rest: "list_all known_type ms" by simp_all
  from k consider "memory_type m = JStr ''positive''" | "memory_type m = JStr ''negative''"
    | "memory_type m = JStr ''neutral''"
    by (auto simp: known_type_def)
  then show ?case
  proof cases
    case 1
    then show ?thesis using Cons.IH [OF rest, of "Suc a" b c] by (simp add: count_type_def)
  next
    case 2
    then show ?thesis using Cons.IH [OF rest, of a "Suc b" c] by (simp add: count_type_def)
  next
    case 3
    then show ?thesis using Cons.IH [OF rest, of a b "Suc c"] by (simp add: count_type_def)
  qed
qed

lemma bump_count_unknown:
  "v \<notin> set [JStr ''positive'', JStr ''negative'', JStr ''neutral''] \<Longrightarrow>
   \<exists>err. bump_count [(''positive'', a), (''negative'', b), (''neutral'', c)] v = Inl err"
  by (cases v) auto

lemma count_memory_types_unknown:
  "\<not> list_all known_type ms \<Longrightarrow>
   \<exists>err. count_memory_types [(''positive'', a), (''negative'', b), (''neutral'', c)] ms = Inl err"
proof (induction ms arbitrary: a b c)
  case Nil
  then show ?case by simp
next
  case (Cons m ms)
  show ?case
  proof (cases "known_type m")
    case False
    then obtain err where
      "bump_count [(''positive'', a), (''negative'', b), (''neutral'', c)] (memory_type m) = Inl err"
      using bump_count_unknown [of "memory_type m" a b c] by (auto simp: known_type_def)
    then show ?thesis by simp
  next
    case True
    with Cons.prems have rest: "\<not> list_all known_type ms" by simp
    from True consider "memory_type m = JStr ''positive''" | "memory_type m = JStr ''negative''"
      | "memory_type m = JStr ''neutral''"
      by (auto simp: known_type_def)
    then show ?thesis
    proof cases
      case 1
      then show ?thesis using Cons.IH [OF rest, of "Suc a" b c] by simp
    next
      case 2
      then show ?thesis using Cons.IH [OF rest, of a "Suc b" c] by simp
    next
      case 3
      then show ?thesis using Cons.IH [OF rest, of a b "Suc c"] by simp
    qed
  qed
qed

text \<open>
  C10.  In the summary of a period report the dominant emotion is the largest of the
  positive, negative and neutral memory counts, a tie going to the earlier of the
  three in that order; a window without memories reports ``positive''.  (A memory
  whose type is none of the three makes the summary raise, so there is no dominant
  emotion then.)
\<close>

theorem dominant_emotion_argmax:
  "(list_all known_type ms \<longrightarrow>
      dominant_emotion ms =
        Inr (argmax_in_order (count_type ''positive'' ms) (count_type ''negative'' ms)
               (count_type ''neutral'' ms)))
   \<and> (\<not> list_all known_type ms \<longrightarrow> (\<exists>err. dominant_emotion ms = Inl err))
   \<and> dominant_emotion [] = Inr ''positive''"
proof (intro conjI impI)
  assume "list_all known_type ms"
  from count_memory_types_known [OF this, of 0 0 0]
  show "dominant_emotion ms =
        Inr (argmax_in_order (count_type ''positive'' ms) (count_type ''negative'' ms)
               (count_type ''neutral'' ms))"
    by (simp add: dominant_emotion_def argmax_in_order_def)
next
  assume "\<not> list_all known_type ms"
  from count_memory_types_unknown [OF this, of 0 0 0]
  show "\<exists>err. dominant_emotion ms = Inl err"
    by (auto simp: dominant_emotion_def)
next
  show "dominant_emotion [] = Inr ''positive''"
    by (simp add: dominant_emotion_def)
qed

theorem dominant_emotion_argmax_witness:
  "list_all known_type [memory_of_type (JStr ''neutral''), memory_of_type (JStr ''negative''),
                        memory_of_type (JStr ''negative''), memory_of_type (JStr ''neutral'')]
   \<and> dominant_emotion [memory_of_type (JStr ''neutral''), memory_of_type (JStr ''negative''),
                        memory_of_type (JStr ''negative''), memory_of_type (JStr ''neutral'')]
       = Inr ''negative''
   \<and> \<not> list_all known_type [memory_of_type (JStr ''happy'')]
   \<and> (\<exists>err. dominant_emotion [memory_of_type (JStr ''happy'')] = Inl err)"
  using dominant_emotion_argmax
          [of "[memory_of_type (JStr ''neutral''), memory_of_type (JStr ''negative''),
                memory_of_type (JStr ''negative''), memory_of_type (JStr ''neutral'')]"]
        dominant_emotion_argmax [of "[memory_of_type (JStr ''happy'')]"]
  by (simp add: known_type_def memory_of_type_def count_type_def argmax_in_order_def)

subsection \<open>The image format check\<close>

text \<open>
  C4, as stated: a format is accepted exactly when it is in the allow-list jpeg, png,
  bmp, webp, heic, tiff after the aliases jpg and tif are normalised.  The check also
  takes the alias \<open>jpe\<close>, which that rule refuses.
\<close>

theorem image_format_jpe_counterexample:
  "check_image_format ''QUJD'' ''jpe'' = Inr ''jpeg'' \<and> \<not> spec_allowed ''jpe''"
  by (simp add: check_image_format_def spec_allowed_def spec_normalize_def)

text \<open>
  C4, amended.  For a non-empty payload and every format string other than \<open>jpeg\<close>,
  the image entry point accepts the format exactly when it is one of jpe, jpg, tif,
  tiff, bmp, png, webp, heic, and then writes it as a member of the allow-list jpeg,
  png, bmp, webp, heic, tiff (jpe and jpg as jpeg, tif as tiff); whenever the check
  refuses, the error is the validation error and the world is left as it was, so no
  request has been attempted.
\<close>

theorem image_format_gate:
  "(image_base64 \<noteq> [] \<and> fmt \<noteq> ''jpeg'' \<longrightarrow>
      (if fmt \<in> set accepted_formats
       then \<exists>f \<in> set [''jpeg'', ''png'', ''bmp'', ''webp'', ''heic'', ''tiff''].
              check_image_format image_base64 fmt = Inr f
       else check_image_format image_base64 fmt = Inl ValueError))
   \<and> (files e image_path = Some image_base64 \<and>
        check_image_format image_base64 (py_split_last (CHR ''.'') image_path) = Inl err \<longrightarrow>
        err = ValueError \<and> analyze_image e image_path w = (Inl ValueError, w))"
  by (auto simp: check_image_format_def accepted_formats_def analyze_image_def split: if_splits)

theorem image_format_gate_witness:
  "''GIF89a'' \<noteq> [] \<and> ''png'' \<noteq> ''jpeg'' \<and> ''png'' \<in> set accepted_formats
   \<and> check_image_format ''GIF89a'' ''png'' = Inr ''png''
   \<and> ''gif'' \<notin> set accepted_formats
   \<and> check_image_format ''GIF89a'' ''gif'' = Inl ValueError
   \<and> files gif_env ''cat.gif'' = Some ''GIF89a''
   \<and> check_image_format ''GIF89a'' (py_split_last (CHR ''.'') ''cat.gif'') = Inl ValueError
   \<and> analyze_image gif_env ''cat.gif'' init_world = (Inl ValueError, init_world)
   \<and> attempts (snd (analyze_image gif_env ''cat.gif'' init_world)) = 0
   \<and> attempts (snd (analyze_image gif_env ''cat.png'' init_world)) = 1"
  using image_format_gate [of "''GIF89a''" "''png''" gif_env "''cat.gif''" ValueError init_world]
        image_format_gate [of "''GIF89a''" "''gif''" gif_env "''cat.gif''" ValueError init_world]
  by (simp add: accepted_formats_def check_image_format_def py_split_last_def gif_env_def
        analyze_image_def chat_with_image_def post_def init_world_def numeral_3_eq_3)

text \<open>
  The format string \<open>jpeg\<close> itself takes none of the three branches that accept, and
  is refused.
\<close>

lemma jpeg_rejected: "check_image_format ''QUJD'' ''jpeg'' = Inl ValueError"
  by (simp add: check_image_format_def)

subsection \<open>The extraction step\<close>

lemma takeWhile_neq_hit:
  "c \<in> set s \<Longrightarrow>
   length (takeWhile (\<lambda>x. x \<noteq> c) s) < length s \<and> s ! length (takeWhile (\<lambda>x. x \<noteq> c) s) = c"
  by (induction s) auto

lemma takeWhile_neq_all: "c \<notin> set s \<Longrightarrow> takeWhile (\<lambda>x. x \<noteq> c) s = s"
  by (induction s) auto

lemma takeWhile_neq_snoc: "c \<notin> set s \<Longrightarrow> takeWhile (\<lambda>x. x \<noteq> c) (s @ [c]) = s"
  by (induction s) auto

lemma find_from_eq:
  "find_from c s k = (if c \<in> set s then k + int (length (takeWhile (\<lambda>x. x \<noteq> c) s)) else -1)"
  by (induction s arbitrary: k) auto

lemma rfind_from_eq:
  "rfind_from c s k best =
     (if c \<in> set s then k + int (length s) - 1 - int (length (takeWhile (\<lambda>x. x \<noteq> c) (rev s)))
      else best)"
proof (induction s arbitrary: k best)
  case Nil
  then show ?case by simp
next
  case (Cons x xs)
  show ?case
  proof (cases "c \<in> set xs")
    case True
    then show ?thesis using Cons.IH [of "k + 1"] by (simp add: takeWhile_append1)
  next
    case False
    then have all: "c \<notin> set (rev xs)" by auto
    show ?thesis
    proof (cases "x = c")
      case True
      with all have "takeWhile (\<lambda>y. y \<noteq> c) (rev xs @ [x]) = rev xs"
        by (simp add: takeWhile_neq_snoc)
      with True False show ?thesis using Cons.IH [of "k + 1"] by simp
    next
      case neq: False
      with False show ?thesis using Cons.IH [of "k + 1"] by simp
    qed
  qed
qed

lemma json_loads_empty: "json_loads [] = None"
  by code_simp

lemma json_loads_closing: "json_loads [CHR ''}''] = None"
  by code_simp

lemma balanced_no_braces:
  "CHR ''{'' \<notin> set m \<Longrightarrow> CHR ''}'' \<notin> set m \<Longrightarrow> balanced 0 m"
  by (induction m) auto

lemma innermost_pair:
  assumes "txt = a @ CHR ''{'' # b" and "CHR ''}'' \<in> set b"
  shows "\<exists>p m r. txt = p @ CHR ''{'' # m @ CHR ''}'' # r \<and> CHR ''{'' \<notin> set m \<and> CHR ''}'' \<notin> set m"
proof -
  from assms(2) obtain b1 b2 where b: "b = b1 @ CHR ''}'' # b2" and nb1: "CHR ''}'' \<notin> set b1"
    by (meson split_list_first)
  have "CHR ''{'' \<in> set (a @ CHR ''{'' # b1)" by simp
  then obtain p m where pm: "a @ CHR ''{'' # b1 = p @ CHR ''{'' # m" and nm: "CHR ''{'' \<notin> set m"
    by (meson split_list_last)
  have "set m \<subseteq> set b1"
  proof -
    from pm obtain us where
      "(a = p @ us \<and> us @ CHR ''{'' # b1 = CHR ''{'' # m) \<or>
       (a @ us = p \<and> CHR ''{'' # b1 = us @ CHR ''{'' # m)"
      unfolding append_eq_append_conv2 by blast
    then show ?thesis
    proof
      assume h: "a = p @ us \<and> us @ CHR ''{'' # b1 = CHR ''{'' # m"
      show ?thesis
      proof (cases us)
        case Nil
        with h show ?thesis by simp
      next
        case (Cons u us')
        with h have "m = us' @ CHR ''{'' # b1" by simp
        with nm show ?thesis by simp
      qed
    next
      assume h: "a @ us = p \<and> CHR ''{'' # b1 = us @ CHR ''{'' # m"
      show ?thesis
      proof (cases us)
        case Nil
        with h show ?thesis by simp
      next
        case (Cons u us')
        with h have "b1 = us' @ CHR ''{'' # m" by simp
        then show ?thesis by auto
      qed
    qed
  qed
  with nb1 have "CHR ''}'' \<notin> set m" by auto
  moreover have "txt = p @ CHR ''{'' # m @ CHR ''}'' # b2"
    using assms(1) b pm by (metis append_assoc append_Cons)
  ultimately show ?thesis using nm by blast
qed

lemma has_balanced_bracesI:
  assumes "txt = p @ CHR ''{'' # m @ CHR ''}'' # r" and "balanced 0 m"
  shows "has_balanced_braces txt"
proof -
  let ?i = "length p" and ?j = "length p + length m + 2"
  have sub: "take (?j - ?i) (drop ?i txt) = CHR ''{'' # m @ [CHR ''}'']"
    using assms(1) by simp
  have "braced (CHR ''{'' # m @ [CHR ''}''])"
    using assms(2) by (simp add: braced_def butlast_append)
  with sub have "braced (take (?j - ?i) (drop ?i txt))" by simp
  moreover have "?i < length txt" "?i \<le> ?j" "?j < Suc (length txt)"
    using assms(1) by simp_all
  ultimately show ?thesis
    unfolding has_balanced_braces_def list_ex_iff
    by (metis atLeastLessThan_iff set_upt le0)
qed

lemma no_balanced_no_pair:
  assumes "\<not> has_balanced_braces txt" and "txt = a @ CHR ''{'' # b"
  shows "CHR ''}'' \<notin> set b"
proof
  assume "CHR ''}'' \<in> set b"
  from innermost_pair [OF assms(2) this] obtain p m r where
    "txt = p @ CHR ''{'' # m @ CHR ''}'' # r" "CHR ''{'' \<notin> set m" "CHR ''}'' \<notin> set m"
    by blast
  then have "has_balanced_braces txt"
    using has_balanced_bracesI balanced_no_braces by blast
  with assms(1) show False by simp
qed

lemma slice_without_pair:
  assumes "\<not> has_balanced_braces txt"
  shows "braces_slice txt = [] \<or> braces_slice txt = [CHR ''}'']"
proof (cases "CHR ''{'' \<in> set txt")
  case False
  then have f: "py_find txt (CHR ''{'') = -1"
    by (simp add: py_find_def find_from_eq)
  show ?thesis
  proof (cases "CHR ''}'' \<in> set txt")
    case False
    then have "py_rfind txt (CHR ''}'') = -1"
      by (simp add: py_rfind_def rfind_from_eq)
    with f show ?thesis
      by (simp add: braces_slice_def py_slice_def slice_index_def)
  next
    case True
    define k where "k = length (takeWhile (\<lambda>x. x \<noteq> CHR ''}'') (rev txt))"
    have kl: "k < length txt"
      using True takeWhile_neq_hit [of "CHR ''}''" "rev txt"] unfolding k_def by simp
    have r: "py_rfind txt (CHR ''}'') = int (length txt) - 1 - int k"
      using True by (simp add: py_rfind_def rfind_from_eq k_def)
    show ?thesis
    proof (cases "k = 0")
      case True
      then have "hd (rev txt) = CHR ''}''"
        using \<open>CHR ''}'' \<in> set txt\<close> unfolding k_def
        by (cases "rev txt") (auto split: if_splits)
      then have l: "last txt = CHR ''}''"
        using kl by (simp add: hd_rev)
      have "nat (int (length txt) - 1) = length txt - 1" by arith
      then have "braces_slice txt = drop (length txt - 1) txt"
        using True f r kl by (simp add: braces_slice_def py_slice_def slice_index_def)
      also have "\<dots> = [last txt]"
        using kl by (metis One_nat_def append_butlast_last_id append_eq_conv_conj length_butlast
            list.size(3) not_less_zero)
      finally show ?thesis using l by simp
    next
      case False
      then show ?thesis
        using f r kl by (simp add: braces_slice_def py_slice_def slice_index_def)
    qed
  qed
next
  case True
  define i where "i = length (takeWhile (\<lambda>x. x \<noteq> CHR ''{'') txt)"
  have il: "i < length txt"
    using True takeWhile_neq_hit [of "CHR ''{''" "txt"] unfolding i_def by simp
  have f: "py_find txt (CHR ''{'') = int i"
    using True by (simp add: py_find_def find_from_eq i_def)
  have decomp: "txt = take i txt @ CHR ''{'' # drop (Suc i) txt"
  proof -
    have "txt ! i = CHR ''{''"
      using True takeWhile_neq_hit [of "CHR ''{''" "txt"] unfolding i_def by simp
    then show ?thesis using il by (metis id_take_nth_drop)
  qed
  from no_balanced_no_pair [OF assms decomp] have nc: "CHR ''}'' \<notin> set (drop (Suc i) txt)" .
  show ?thesis
  proof (cases "CHR ''}'' \<in> set txt")
    case False
    then have "py_rfind txt (CHR ''}'') = -1"
      by (simp add: py_rfind_def rfind_from_eq)
    with f show ?thesis
      by (simp add: braces_slice_def py_slice_def slice_index_def)
  next
    case True
    define k where "k = length (takeWhile (\<lambda>x. x \<noteq> CHR ''}'') (rev txt))"
    have kl: "k < length txt"
      using True takeWhile_neq_hit [of "CHR ''}''" "rev txt"] unfolding k_def by simp
    have r: "py_rfind txt (CHR ''}'') = int (length txt) - 1 - int k"
      using True by (simp add: py_rfind_def rfind_from_eq k_def)
    have at: "rev txt ! k = CHR ''}''"
      using True takeWhile_neq_hit [of "CHR ''}''" "rev txt"] unfolding k_def by simp
    then have at': "txt ! (length txt - 1 - k) = CHR ''}''"
      using kl by (simp add: rev_nth)
    have "length txt - 1 - k \<le> i"
    proof (rule ccontr)
      assume "\<not> length txt - 1 - k \<le> i"
      then have gt: "Suc i \<le> length txt - 1 - k" by simp
      have "Suc i + (length txt - 1 - k - Suc i) = length txt - 1 - k"
        using gt by arith
      then have "drop (Suc i) txt ! (length txt - 1 - k - Suc i) = txt ! (length txt - 1 - k)"
        using kl by (metis nth_drop le_add1 le_trans less_imp_le_nat diff_le_self)
      moreover have "length txt - 1 - k - Suc i < length (drop (Suc i) txt)"
        using gt kl by simp
      ultimately have "CHR ''}'' \<in> set (drop (Suc i) txt)"
        using at' by (metis nth_mem)
      with nc show False by simp
    qed
    moreover have "txt ! i = CHR ''{''"
      using \<open>CHR ''{'' \<in> set txt\<close> takeWhile_neq_hit [of "CHR ''{''" "txt"] unfolding i_def by simp
    with at' have "length txt - 1 - k \<noteq> i" by auto
    ultimately have "length txt - 1 - k < i" by simp
    then have "nat (int (length txt) - int k) \<le> i" using kl by arith
    then show ?thesis
      using f r kl il by (simp add: braces_slice_def py_slice_def slice_index_def)
  qed
qed

lemma no_balanced_fallback:
  "\<not> has_balanced_braces txt \<Longrightarrow> parse_json_safe txt fallback = fallback"
  using slice_without_pair [of "txt"] json_loads_empty json_loads_closing
  by (auto simp: parse_json_safe_def braces_slice_def Let_def)

lemma slice_shape:
  "braces_slice txt = [] \<or> braces_slice txt = [CHR ''}''] \<or> hd (braces_slice txt) = CHR ''{''"
proof (cases "has_balanced_braces txt")
  case False
  then show ?thesis using slice_without_pair by blast
next
  case True
  show ?thesis
  proof (cases "CHR ''{'' \<in> set txt")
    case False
    then have "\<And>a b. txt \<noteq> a @ CHR ''{'' # b" by auto
    with True show ?thesis
      unfolding has_balanced_braces_def list_ex_iff braced_def
      by (metis False hd_in_set in_set_dropD in_set_takeD length_0_conv not_numeral_le_zero)
  next
    case c: True
    define i where "i = length (takeWhile (\<lambda>x. x \<noteq> CHR ''{'') txt)"
    have il: "i < length txt" and ati: "txt ! i = CHR ''{''"
      using c takeWhile_neq_hit [of "CHR ''{''" "txt"] unfolding i_def by simp_all
    have f: "py_find txt (CHR ''{'') = int i"
      using c by (simp add: py_find_def find_from_eq i_def)
    have "hd (drop i txt) = CHR ''{''"
      using il ati by (simp add: hd_drop_conv_nth)
    moreover have "\<exists>n. braces_slice txt = take n (drop i txt)"
      using f il by (auto simp: braces_slice_def py_slice_def slice_index_def)
    ultimately show ?thesis
      by (metis hd_take take_eq_Nil gr0I)
  qed
qed

lemma json_loads_brace_object:
  assumes "json_loads s = Some v" and "s \<noteq> []" and "hd s = CHR ''{''"
  shows "\<exists>kvs. v = JObj kvs"
proof -
  from assms(2,3) obtain cs where s: "s = CHR ''{'' # cs" by (cases s) auto
  then have ws: "skip_ws s = s" by (simp add: skip_ws_def is_json_ws_def)
  have "2 * length s + 2 = Suc (2 * length s + 1)" by simp
  with assms(1) ws s show ?thesis
    by (auto simp: json_loads_def dq_def split: option.splits if_splits prod.splits)
qed

lemma parse_json_safe_object:
  "parse_json_safe txt fallback = fallback \<or> (\<exists>kvs. parse_json_safe txt fallback = JObj kvs)"
proof (cases "json_loads (braces_slice txt)")
  case None
  then show ?thesis by (simp add: parse_json_safe_def braces_slice_def Let_def)
next
  case (Some v)
  with slice_shape [of "txt"] json_loads_empty json_loads_closing
  have "braces_slice txt \<noteq> []" "hd (braces_slice txt) = CHR ''{''" by auto
  from json_loads_brace_object [OF Some this] Some show ?thesis
    by (auto simp: parse_json_safe_def braces_slice_def Let_def)
qed

text \<open>
  C2, as stated: the fallback comes back when the text has no balanced \<open>{...}\<close>
  substring, and the parsed object otherwise.  A text with two objects has a balanced
  substring that parses, yet the text from the first \<open>{\<close> to the last \<open>}\<close> does not,
  and the fallback comes back.
\<close>

theorem parse_json_safe_two_objects_counterexample:
  "has_balanced_braces ''{} {}'' \<and> json_loads ''{}'' = Some (JObj [])
   \<and> parse_json_safe ''{} {}'' JNull = JNull"
  by code_simp

text \<open>
  C2, amended.  For every model-response text and every fallback value, the extraction
  step returns the fallback unchanged whenever the text contains no balanced \<open>{...}\<close>
  substring or the text from its first \<open>{\<close> to its last \<open>}\<close> is not valid JSON, and
  otherwise returns the value parsed from that text, which is an object.  The step
  raises nothing: its result is the fallback or an object, and a request that fails
  gives the fallback.
\<close>

theorem parse_json_safe_result:
  "(\<not> has_balanced_braces txt \<longrightarrow> parse_json_safe txt fallback = fallback)
   \<and> (json_loads (braces_slice txt) = None \<longrightarrow> parse_json_safe txt fallback = fallback)
   \<and> (\<forall>v. json_loads (braces_slice txt) = Some v \<longrightarrow>
          parse_json_safe txt fallback = v \<and> (\<exists>kvs. v = JObj kvs))
   \<and> (fst (ask_json e fallback w) = fallback \<or> (\<exists>kvs. fst (ask_json e fallback w) = JObj kvs))
   \<and> (\<forall>err. fst (chat e w) = Inl err \<longrightarrow> fst (ask_json e fallback w) = fallback)"
proof (intro conjI impI allI)
  assume "\<not> has_balanced_braces txt"
  then show "parse_json_safe txt fallback = fallback" by (rule no_balanced_fallback)
next
  assume "json_loads (braces_slice txt) = None"
  then show "parse_json_safe txt fallback = fallback"
    by (simp add: parse_json_safe_def braces_slice_def Let_def)
next
  fix v assume v: "json_loads (braces_slice txt) = Some v"
  then show "parse_json_safe txt fallback = v"
    by (simp add: parse_json_safe_def braces_slice_def Let_def)
  with v parse_json_safe_object [of "txt" JNull] parse_json_safe_object [of "txt" "JBool True"]
  show "\<exists>kvs. v = JObj kvs"
    by (auto simp: parse_json_safe_def braces_slice_def Let_def)
next
  show "fst (ask_json e fallback w) = fallback \<or> (\<exists>kvs. fst (ask_json e fallback w) = JObj kvs)"
    using parse_json_safe_object by (auto simp: ask_json_def split: prod.splits sum.splits)
next
  fix err assume "fst (chat e w) = Inl err"
  then show "fst (ask_json e fallback w) = fallback"
    by (auto simp: ask_json_def split: prod.splits sum.splits)
qed

theorem parse_json_safe_result_witness:
  "\<not> has_balanced_braces ''no json here, sorry }{''
   \<and> parse_json_safe ''no json here, sorry }{'' JNull = JNull
   \<and> json_loads (braces_slice ''{} {}'') = None
   \<and> parse_json_safe ''{} {}'' JNull = JNull
   \<and> json_loads (braces_slice score_reply) = Some (JObj [(''score'', JNum 7)])
   \<and> parse_json_safe score_reply JNull = JObj [(''score'', JNum 7)]
   \<and> fst (chat \<lparr>http = (\<lambda>n. HttpFail), max_retries = 2, files = (\<lambda>p. None)\<rparr> init_world)
       = Inl RuntimeError
   \<and> fst (ask_json \<lparr>http = (\<lambda>n. HttpFail), max_retries = 2, files = (\<lambda>p. None)\<rparr> JNull init_world)
       = JNull"
proof -
  have a: "\<not> has_balanced_braces ''no json here, sorry }{''" by code_simp
  have b: "json_loads (braces_slice ''{} {}'') = None" by code_simp
  have c: "json_loads (braces_slice score_reply) = Some (JObj [(''score'', JNum 7)])" by code_simp
  have d: "fst (chat \<lparr>http = (\<lambda>n. HttpFail), max_retries = 2, files = (\<lambda>p. None)\<rparr> init_world)
       = Inl RuntimeError"
    by (simp add: chat_def post_def init_world_def numeral_3_eq_3)
  show ?thesis
    using a b c d
      parse_json_safe_result [of "''no json here, sorry }{''" JNull
         "\<lparr>http = (\<lambda>n. HttpFail), max_retries = 2, files = (\<lambda>p. None)\<rparr>" init_world]
      parse_json_safe_result [of "''{} {}''" JNull
         "\<lparr>http = (\<lambda>n. HttpFail), max_retries = 2, files = (\<lambda>p. None)\<rparr>" init_world]
      parse_json_safe_result [of score_reply JNull
         "\<lparr>http = (\<lambda>n. HttpFail), max_retries = 2, files = (\<lambda>p. None)\<rparr>" init_world]
    by simp
qed

subsection \<open>The trend of the emotion trajectory\<close>

lemma slope_num_Suc:
  "slope_num y (Suc n) = slope_num y n + (\<Sum>i<n. (of_nat n - of_nat i) * (y n - y i))"
proof -
  have "(\<Sum>i<n. (of_nat n - of_nat i) * (y n - y i))
      = of_nat n * of_nat n * y n - of_nat n * (\<Sum>i<n. y i)
        - (\<Sum>i<n. of_nat i) * y n + (\<Sum>i<n. of_nat i * y i)"
    by (simp add: algebra_simps sum.distrib sum_subtractf sum_distrib_left sum_distrib_right)
  then show ?thesis
    by (simp add: slope_num_def algebra_simps)
qed

lemma slope_den_num: "slope_den n = slope_num of_nat n"
  by (simp add: slope_den_def slope_num_def)

lemma slope_den_Suc:
  "slope_den (Suc n) = slope_den n + (\<Sum>i<n. (of_nat n - of_nat i) * (of_nat n - of_nat i))"
  by (simp add: slope_den_num slope_num_Suc)

lemma slope_den_mono: "slope_den n \<le> slope_den (Suc n)"
  by (simp add: slope_den_Suc sum_nonneg)

lemma slope_den_pos: "2 \<le> n \<Longrightarrow> 0 < slope_den n"
proof (induction n rule: nat_induct_at_least)
  case base
  show ?case by (simp add: slope_den_def numeral_2_eq_2)
next
  case (Suc n)
  then show ?case using slope_den_mono [of n] by simp
qed

lemma climb:
  fixes y :: "nat \<Rightarrow> rat"
  assumes "\<And>i. i < n \<Longrightarrow> y i + d < y (Suc i)" and "i < n"
  shows "d * (of_nat n - of_nat i) < y n - y i"
  using assms
proof (induction n)
  case 0
  then show ?case by simp
next
  case (Suc n)
  show ?case
  proof (cases "i = n")
    case True
    have "d * (of_nat (Suc n) - of_nat n) = d" by simp
    moreover have "d < y (Suc n) - y n" using Suc.prems(1) [of n] by simp
    ultimately show ?thesis unfolding True by (simp only:)
  next
    case False
    with Suc.prems have "i < n" by simp
    with Suc.IH Suc.prems(1) have "d * (of_nat n - of_nat i) < y n - y i" by simp
    moreover have "y n + d < y (Suc n)" using Suc.prems(1) by simp
    ultimately show ?thesis by (simp add: algebra_simps)
  qed
qed

lemma slope_num_rising:
  fixes y :: "nat \<Rightarrow> rat"
  assumes "\<And>i. Suc i < n \<Longrightarrow> y i + d < y (Suc i)" and "2 \<le> n"
  shows "d * slope_den n < slope_num y n"
  using assms(2,1)
proof (induction n rule: nat_induct_at_least)
  case base
  have "y 0 + d < y 1" using base [of 0] by simp
  then show ?case
    by (simp add: slope_den_def slope_num_def numeral_2_eq_2 algebra_simps)
next
  case (Suc n)
  have steps: "\<And>i. i < n \<Longrightarrow> y i + d < y (Suc i)" using Suc.prems by simp
  have ih: "d * slope_den n < slope_num y n" using Suc.IH Suc.prems by simp
  have "(\<Sum>i<n. d * ((of_nat n - of_nat i) * (of_nat n - of_nat i)))
      \<le> (\<Sum>i<n. (of_nat n - of_nat i) * (y n - y i))"
  proof (rule sum_mono)
    fix i assume "i \<in> {..<n}"
    then have i: "i < n" by simp
    have "d * (of_nat n - of_nat i) < y n - y i"
      using climb [of n y d i] steps i by blast
    moreover have "(0::rat) < of_nat n - of_nat i" using i by simp
    ultimately have "(of_nat n - of_nat i) * (d * (of_nat n - of_nat i))
        < (of_nat n - of_nat i) * (y n - y i)"
      by (rule mult_strict_left_mono)
    then show "d * ((of_nat n - of_nat i) * (of_nat n - of_nat i))
        \<le> (of_nat n - of_nat i) * (y n - y i)"
      by (simp add: algebra_simps)
  qed
  then have "d * (\<Sum>i<n. (of_nat n - of_nat i) * (of_nat n - of_nat i))
      \<le> (\<Sum>i<n. (of_nat n - of_nat i) * (y n - y i))"
    by (simp add: sum_distrib_left)
  with ih show ?case
    by (simp add: slope_den_Suc slope_num_Suc algebra_simps)
qed

lemma slope_num_uminus: "slope_num (\<lambda>i. - y i) n = - slope_num y n"
  by (simp add: slope_num_def sum_negf)

lemma slope_num_falling:
  fixes y :: "nat \<Rightarrow> rat"
  assumes "\<And>i. Suc i < n \<Longrightarrow> y (Suc i) + d < y i" and "2 \<le> n"
  shows "slope_num y n < - (d * slope_den n)"
proof -
  have "\<And>i. Suc i < n \<Longrightarrow> - y i + d < - y (Suc i)" using assms(1) by force
  from slope_num_rising [of n "\<lambda>i. - y i" d, OF this assms(2)]
  show ?thesis by (simp add: slope_num_uminus)
qed

lemma slope_num_constant:
  fixes y :: "nat \<Rightarrow> rat"
  assumes "\<And>i. Suc i < n \<Longrightarrow> y (Suc i) = y i"
  shows "slope_num y n = 0"
proof -
  have eq: "i < n \<Longrightarrow> y i = y 0" for i
  proof (induction i)
    case 0
    show ?case by simp
  next
    case (Suc i)
    then show ?case using assms [of i] by simp
  qed
  have "(\<Sum>i<n. of_nat i * y i) = (\<Sum>i<n. of_nat i * y 0)"
  proof (rule sum.cong [OF refl])
    fix i assume "i \<in> {..<n}"
    then have "y i = y 0" using eq [of i] by simp
    then show "of_nat i * y i = of_nat i * y 0" by (simp only:)
  qed
  then have a: "(\<Sum>i<n. of_nat i * y i) = (\<Sum>i<n. of_nat i) * y 0"
    by (simp add: sum_distrib_right)
  have "(\<Sum>i<n. y i) = (\<Sum>i<n. y 0)"
  proof (rule sum.cong [OF refl])
    fix i assume "i \<in> {..<n}"
    then show "y i = y 0" using eq [of i] by simp
  qed
  then have b: "(\<Sum>i<n. y i) = of_nat n * y 0" by simp
  show ?thesis unfolding slope_num_def a b by (simp add: mult.commute mult.left_commute)
qed

lemma polyfit_slope_eq: "polyfit_slope ys = slope_num (\<lambda>i. ys ! i) (length ys) / slope_den (length ys)"
  by (simp add: polyfit_slope_def slope_num_def slope_den_def Let_def)

lemma polyfit_slope_rising:
  assumes "rises_by d ys" and "2 \<le> length ys"
  shows "d < polyfit_slope ys"
proof -
  have "d * slope_den (length ys) < slope_num (\<lambda>i. ys ! i) (length ys)"
    using assms by (intro slope_num_rising) (simp_all add: rises_by_def)
  then show ?thesis
    using slope_den_pos [OF assms(2)] by (simp add: polyfit_slope_eq pos_less_divide_eq)
qed

lemma polyfit_slope_falling:
  assumes "falls_by d ys" and "2 \<le> length ys"
  shows "polyfit_slope ys < - d"
proof -
  have "slope_num (\<lambda>i. ys ! i) (length ys) < - (d * slope_den (length ys))"
    using assms by (intro slope_num_falling) (simp_all add: falls_by_def)
  then show ?thesis
    using slope_den_pos [OF assms(2)] by (simp add: polyfit_slope_eq pos_divide_less_eq)
qed

lemma polyfit_slope_constant:
  assumes "constant_list ys"
  shows "polyfit_slope ys = 0"
proof -
  have "slope_num (\<lambda>i. ys ! i) (length ys) = 0"
    using assms by (intro slope_num_constant) (simp add: constant_list_def)
  then show ?thesis by (simp add: polyfit_slope_eq)
qed

lemma length_ratios_by_date: "length (ratios_by_date trajectory field) = length trajectory"
  by (simp add: ratios_by_date_def)

text \<open>
  C7, as stated: a strictly increasing sequence of positive ratios over at least two
  dates gives the label ``improving''.  Two dates with 100 and then 101 positive
  interactions out of 200 rise strictly, but the slope 1/200 stays within the
  threshold and the label is ``stable''.
\<close>

theorem emotion_trend_small_rise_counterexample:
  "positive_ratio (day 100 200) < positive_ratio (day 101 200)
   \<and> calculate_emotion_trend [(1::nat, day 100 200), (2, day 101 200)]
       = Trend (1 / 200) 0 ''stable'' (1 / 200)"
  by (simp add: calculate_emotion_trend_def ratios_by_date_def polyfit_slope_def day_def
        Let_def numeral_2_eq_2)

text \<open>
  C7, amended.  Given a daily trajectory with at least two dates, a sequence of
  positive ratios (in date order) in which every day exceeds the day before by more
  than 0.01 yields the trend label ``improving'', one in which every day is below the
  day before by more than 0.01 yields ``declining'', and a constant sequence yields
  ``stable''.  (The slope is the exact least-squares slope; rounding of the floating
  point computation is not modelled.)
\<close>

theorem emotion_trend_sign:
  assumes "2 \<le> length trajectory"
  shows "(rises_by (1 / 100) (ratios_by_date trajectory positive_ratio) \<longrightarrow>
            (\<exists>p n s. calculate_emotion_trend trajectory = Trend p n ''improving'' s))
       \<and> (falls_by (1 / 100) (ratios_by_date trajectory positive_ratio) \<longrightarrow>
            (\<exists>p n s. calculate_emotion_trend trajectory = Trend p n ''declining'' s))
       \<and> (constant_list (ratios_by_date trajectory positive_ratio) \<longrightarrow>
            (\<exists>p n s. calculate_emotion_trend trajectory = Trend p n ''stable'' s))"
proof -
  let ?ys = "ratios_by_date trajectory positive_ratio"
  have len: "2 \<le> length ?ys" using assms by (simp add: length_ratios_by_date)
  have ne: "trajectory \<noteq> []" using assms by auto
  have up: "rises_by (1 / 100) ?ys \<Longrightarrow> 1 / 100 < polyfit_slope ?ys"
    by (rule polyfit_slope_rising [OF _ len])
  have down: "falls_by (1 / 100) ?ys \<Longrightarrow> polyfit_slope ?ys < - (1 / 100)"
    by (rule polyfit_slope_falling [OF _ len])
  have flat: "constant_list ?ys \<Longrightarrow> polyfit_slope ?ys = 0"
    by (rule polyfit_slope_constant)
  show ?thesis
  proof (intro conjI impI)
    assume "rises_by (1 / 100) ?ys"
    from up [OF this] show "\<exists>p n s. calculate_emotion_trend trajectory = Trend p n ''improving'' s"
      using assms ne by (simp add: calculate_emotion_trend_def Let_def)
  next
    assume "falls_by (1 / 100) ?ys"
    from down [OF this] show "\<exists>p n s. calculate_emotion_trend trajectory = Trend p n ''declining'' s"
      using assms ne by (simp add: calculate_emotion_trend_def Let_def)
  next
    assume "constant_list ?ys"
    from flat [OF this] show "\<exists>p n s. calculate_emotion_trend trajectory = Trend p n ''stable'' s"
      using assms ne by (simp add: calculate_emotion_trend_def Let_def)
  qed
qed

theorem emotion_trend_sign_witness:
  "2 \<le> length rising_days
   \<and> rises_by (1 / 100) (ratios_by_date rising_days positive_ratio)
   \<and> (\<exists>p n s. calculate_emotion_trend rising_days = Trend p n ''improving'' s)
   \<and> 2 \<le> length falling_days
   \<and> falls_by (1 / 100) (ratios_by_date falling_days positive_ratio)
   \<and> (\<exists>p n s. calculate_emotion_trend falling_days = Trend p n ''declining'' s)
   \<and> 2 \<le> length steady_days
   \<and> constant_list (ratios_by_date steady_days positive_ratio)
   \<and> (\<exists>p n s. calculate_emotion_trend steady_days = Trend p n ''stable'' s)"
proof -
  have r: "ratios_by_date rising_days positive_ratio = [1 / 4, 1 / 2, 3 / 4]"
    by (simp add: ratios_by_date_def rising_days_def day_def)
  have f: "ratios_by_date falling_days positive_ratio = [3 / 4, 1 / 2, 1 / 4]"
    by (simp add: ratios_by_date_def falling_days_def day_def)
  have c: "ratios_by_date steady_days positive_ratio = [1 / 2, 1 / 2, 1 / 2]"
    by (simp add: ratios_by_date_def steady_days_def day_def)
  have 1: "rises_by (1 / 100) (ratios_by_date rising_days positive_ratio)"
    unfolding r rises_by_def by (auto simp: less_Suc_eq)
  have 2: "falls_by (1 / 100) (ratios_by_date falling_days positive_ratio)"
    unfolding f falls_by_def by (auto simp: less_Suc_eq)
  have 3: "constant_list (ratios_by_date steady_days positive_ratio)"
    unfolding c constant_list_def by (auto simp: less_Suc_eq)
  have l: "2 \<le> length rising_days" "2 \<le> length falling_days" "2 \<le> length steady_days"
    by (simp_all add: rising_days_def falling_days_def steady_days_def)
  show ?thesis
    using 1 2 3 l emotion_trend_sign [OF l(1)] emotion_trend_sign [OF l(2)]
      emotion_trend_sign [OF l(3)]
    by blast
qed

subsection \<open>The pipeline: what each step changes\<close>

lemma py_get_obj: "py_get (JObj kvs) k d = Inr (case map_of kvs k of Some v \<Rightarrow> v | None \<Rightarrow> d)"
  by (simp split: option.splits)

lemma py_get_obj_cases:
  "py_get (JObj kvs) k d = Inr v \<longleftrightarrow> v = (case map_of kvs k of Some x \<Rightarrow> x | None \<Rightarrow> d)"
  by (auto split: option.splits)


lemma same_tables_refl: "same_tables w w"
  by (auto simp: same_tables_def intro: exI [of _ "attempts w"])

lemma same_tables_trans: "same_tables w w' \<Longrightarrow> same_tables w' w'' \<Longrightarrow> same_tables w w''"
  by (auto simp: same_tables_def)

lemma same_tables_fields:
  assumes "same_tables w w'"
  shows "user_profiles w' = user_profiles w" "interaction_logs w' = interaction_logs w"
    "emotion_analyses w' = emotion_analyses w" "personas w' = personas w"
    "memory_events w' = memory_events w" "uuids w' = uuids w" "clock w' = clock w"
    "get_personas u w' = get_personas u w"
    "get_interaction_logs u n w' = get_interaction_logs u n w"
    "get_memory_events u n w' = get_memory_events u n w"
  using assms
  by (auto simp: same_tables_def get_personas_def get_interaction_logs_def get_memory_events_def)

lemma same_tablesD:
  "same_tables w w' \<Longrightarrow>
   user_profiles w' = user_profiles w \<and> interaction_logs w' = interaction_logs w \<and>
   emotion_analyses w' = emotion_analyses w \<and> personas w' = personas w \<and>
   memory_events w' = memory_events w \<and> uuids w' = uuids w \<and> clock w' = clock w"
  by (auto simp: same_tables_def)

lemma post_tables: "post e w = (r, w') \<Longrightarrow> same_tables w w'"
  by (auto simp: post_def same_tables_def split: prod.splits)

lemma chat_tables: "chat e w = (r, w') \<Longrightarrow> same_tables w w'"
  by (simp add: chat_def post_tables)

lemma ask_json_tables: "ask_json e fallback w = (v, w') \<Longrightarrow> same_tables w w'"
  by (auto simp: ask_json_def split: prod.splits sum.splits dest: chat_tables)

lemma analyze_image_tables: "analyze_image e path w = (r, w') \<Longrightarrow> same_tables w w'"
  by (auto simp: analyze_image_def chat_with_image_def same_tables_refl
      split: option.splits prod.splits sum.splits dest: post_tables)

lemma ground_image_tables: "ground_image e text image_path w = (r, w') \<Longrightarrow> same_tables w w'"
  by (auto simp: ground_image_def same_tables_refl
      split: option.splits prod.splits sum.splits if_splits dest: analyze_image_tables)

lemma stage_tables:
  "analyze_emotion e w = (v, w') \<Longrightarrow> same_tables w w'"
  "extract_entities e w = (v, w') \<Longrightarrow> same_tables w w'"
  "analyze_style e w = (v, w') \<Longrightarrow> same_tables w w'"
  "extract_temporal e w = (v, w') \<Longrightarrow> same_tables w w'"
  by (auto simp: analyze_emotion_def extract_entities_def analyze_style_def extract_temporal_def
      dest: ask_json_tables)

lemma ask_json_fails:
  "extraction_fails e w \<Longrightarrow> ask_json e fallback w = (fallback, snd (chat e w))"
  by (auto simp: extraction_fails_def ask_json_def parse_json_safe_def braces_slice_def Let_def
      split: prod.splits sum.splits)

lemma create_personas_loop_frame:
  "create_personas_loop e u style names acc w = (r, w') \<Longrightarrow>
   user_profiles w' = user_profiles w \<and> interaction_logs w' = interaction_logs w \<and>
   emotion_analyses w' = emotion_analyses w \<and> memory_events w' = memory_events w"
proof (induction names arbitrary: acc w)
  case Nil
  then show ?case by simp
next
  case (Cons nm names)
  show ?case
  proof (cases "list_ex (\<lambda>p. name p = nm) (get_personas u w)")
    case True
    with Cons show ?thesis by simp
  next
    case False
    obtain info w1 where a: "ask_json e persona_fallback w = (info, w1)" by force
    note f = same_tables_fields [OF ask_json_tables [OF a]]
    show ?thesis
      using Cons.prems False a f Cons.IH
      by (auto simp: create_persona_def uuid4_def now_def Let_def
          split: sum.splits prod.splits)
  qed
qed

lemma create_personas_frame:
  "create_personas e u ents style w = (r, w') \<Longrightarrow>
   user_profiles w' = user_profiles w \<and> interaction_logs w' = interaction_logs w \<and>
   emotion_analyses w' = emotion_analyses w \<and> memory_events w' = memory_events w"
  by (auto simp: create_personas_def split: sum.splits dest: create_personas_loop_frame)

lemma create_memories_frame:
  "create_memories e u lid ents pad temporal w = (r, w') \<Longrightarrow>
   user_profiles w' = user_profiles w \<and> interaction_logs w' = interaction_logs w \<and>
   emotion_analyses w' = emotion_analyses w \<and> personas w' = personas w"
proof -
  assume h: "create_memories e u lid ents pad temporal w = (r, w')"
  obtain t w1 where a: "ask_json e topic_fallback w = (t, w1)" by force
  obtain sc w2 where b: "ask_json e score_fallback w1 = (sc, w2)" by force
  note f = same_tables_fields [OF ask_json_tables [OF a]]
    same_tables_fields [OF ask_json_tables [OF b]]
  show ?thesis
    using h a b f
    by (auto simp: create_memories_def create_memory_event_def uuid4_def now_def Let_def
        split: sum.splits prod.splits)
qed

lemma get_response_frame:
  "get_response_to_interaction e u pid_opt w = (r, w') \<Longrightarrow>
   user_profiles w' = user_profiles w \<and> emotion_analyses w' = emotion_analyses w \<and>
   memory_events w' = memory_events w \<and>
   map log_core (interaction_logs w') = map log_core (interaction_logs w)"
proof -
  assume h: "get_response_to_interaction e u pid_opt w = (r, w')"
  obtain c w1 where a: "chat e w = (c, w1)" by force
  note f = same_tables_fields [OF chat_tables [OF a]]
  show ?thesis
    using h a f
    by (auto simp: get_response_to_interaction_def ensure_default_persona_def create_persona_def
        save_assistant_reply_def increment_persona_interaction_def log_core_def
        uuid4_def now_def Let_def
        split: sum.splits prod.splits if_splits option.splits list.splits)
qed

lemma bootstrap_frame:
  "interaction_logs (bootstrap u w) = interaction_logs w \<and>
   emotion_analyses (bootstrap u w) = emotion_analyses w \<and>
   memory_events (bootstrap u w) = memory_events w \<and>
   attempts (bootstrap u w) = attempts w"
  by (auto simp: bootstrap_def ensure_default_persona_def create_persona_def create_user_profile_def
      get_personas_def uuid4_def now_def Let_def split: option.splits)

subsection \<open>The rows of the emotion analysis\<close>

lemma emotion_label_of_obj: "emotion_label_of pad = Inr label \<Longrightarrow> \<exists>kvs. pad = JObj kvs"
  by (cases pad) (auto simp: emotion_label_of_def)

lemma analysis_rows:
  assumes run: "analyse_and_store e u text itype img w = (r, w8)"
    and pad: "analyze_emotion e w = (pad, w1)"
    and label: "emotion_label_of pad = Inr label"
  shows "\<exists>pv cat conf meth.
           py_get pad ''pad_values'' (JObj []) = Inr pv \<and>
           py_get pad ''emotion_category'' (JObj []) = Inr cat \<and>
           py_get pad ''confidence'' (JNum (1 / 2)) = Inr conf \<and>
           py_get pad ''analysis_method'' (JStr ''llm'') = Inr meth \<and>
           interaction_logs w8 = interaction_logs w @
             [\<lparr>log_id = uuids w, log_user_id = u, log_timestamp = clock w, input_type = itype,
               detected_emotion = pv, emotion_label = label, response_avatar = [],
               raw_input_data = JObj [(''text'', JStr text), (''image'', img)],
               processing_metadata = JObj []\<rparr>] \<and>
           emotion_analyses w8 = emotion_analyses w @
             [\<lparr>analysis_id = Suc (uuids w), analysis_log_id = uuids w, pad_values = pv,
               emotion_categories = cat, confidence_scores = JObj [(''confidence'', conf)],
               analysis_method = meth, analysis_created_at = Suc (clock w)\<rparr>]"
proof -
  from label obtain kvs where obj: "pad = JObj kvs" using emotion_label_of_obj by blast
  have eq: "same_tables w w1" using pad by (rule stage_tables)
  note f = same_tables_fields [OF eq]
  let ?pv = "case map_of kvs ''pad_values'' of Some v \<Rightarrow> v | None \<Rightarrow> JObj []"
  let ?cat = "case map_of kvs ''emotion_category'' of Some v \<Rightarrow> v | None \<Rightarrow> JObj []"
  let ?conf = "case map_of kvs ''confidence'' of Some v \<Rightarrow> v | None \<Rightarrow> JNum (1 / 2)"
  let ?meth = "case map_of kvs ''analysis_method'' of Some v \<Rightarrow> v | None \<Rightarrow> JStr ''llm''"
  let ?raw = "JObj [(''text'', JStr text), (''image'', img)]"
  obtain lid w2 where log: "log_interaction u itype ?pv label ?raw w1 = (lid, w2)" by force
  obtain aid w3 where sav:
    "save_emotion_analysis lid ?pv ?cat (JObj [(''confidence'', ?conf)]) ?meth w2 = (aid, w3)"
    by force
  have w3: "interaction_logs w3 = interaction_logs w @
             [\<lparr>log_id = uuids w, log_user_id = u, log_timestamp = clock w, input_type = itype,
               detected_emotion = ?pv, emotion_label = label, response_avatar = [],
               raw_input_data = ?raw, processing_metadata = JObj []\<rparr>]"
    "emotion_analyses w3 = emotion_analyses w @
             [\<lparr>analysis_id = Suc (uuids w), analysis_log_id = uuids w, pad_values = ?pv,
               emotion_categories = ?cat, confidence_scores = JObj [(''confidence'', ?conf)],
               analysis_method = ?meth, analysis_created_at = Suc (clock w)\<rparr>]"
    using log sav f
    by (auto simp: log_interaction_def save_emotion_analysis_def uuid4_def now_def Let_def
        py_or_def)
  obtain ents w4 where s4: "extract_entities e w3 = (ents, w4)" by force
  obtain style w5 where s5: "analyze_style e w4 = (style, w5)" by force
  obtain temporal w6 where s6: "extract_temporal e w5 = (temporal, w6)" by force
  obtain r7 w7 where s7: "create_personas e u ents style w6 = (r7, w7)" by force
  have f4: "interaction_logs w4 = interaction_logs w3" "emotion_analyses w4 = emotion_analyses w3"
    using same_tablesD [OF stage_tables(2) [OF s4]] by simp_all
  have f5: "interaction_logs w5 = interaction_logs w4" "emotion_analyses w5 = emotion_analyses w4"
    using same_tablesD [OF stage_tables(3) [OF s5]] by simp_all
  have f6: "interaction_logs w6 = interaction_logs w5" "emotion_analyses w6 = emotion_analyses w5"
    using same_tablesD [OF stage_tables(4) [OF s6]] by simp_all
  have f7: "interaction_logs w7 = interaction_logs w6" "emotion_analyses w7 = emotion_analyses w6"
    using create_personas_frame [OF s7] by simp_all
  have w7: "interaction_logs w7 = interaction_logs w3" "emotion_analyses w7 = emotion_analyses w3"
    using f4 f5 f6 f7 by simp_all
  have "interaction_logs w8 = interaction_logs w3 \<and> emotion_analyses w8 = emotion_analyses w3"
    using run pad obj label log sav s4 s5 s6 s7 w7
    by (auto simp: analyse_and_store_def py_get_obj simp del: py_get.simps
        split: sum.splits prod.splits dest!: create_memories_frame)
  with w3 show ?thesis by (simp add: obj py_get_obj del: py_get.simps)
qed

subsection \<open>The fallback of the emotion analysis\<close>

lemma emotion_label_of_fallback: "emotion_label_of emotion_fallback = Inr (JStr ''neutral'')"
  by (simp add: emotion_label_of_def emotion_fallback_def)

lemma fallback_rows:
  assumes g: "ground_image e text image_path (bootstrap u w) = (Inr (text', img), w0)"
    and f: "extraction_fails e w0"
    and run: "process_interaction e u text itype image_path pid w = (r, w')"
  shows "\<exists>l a. map log_core (interaction_logs w') = map log_core (interaction_logs w) @ [log_core l]
           \<and> log_user_id l = u \<and> detected_emotion l = neutral_pad
           \<and> emotion_label l = JStr ''neutral''
           \<and> emotion_analyses w' = emotion_analyses w @ [a]
           \<and> analysis_log_id a = log_id l \<and> pad_values a = neutral_pad
           \<and> emotion_categories a = neutral_category
           \<and> confidence_scores a = JObj [(''confidence'', JNum (1 / 2))]
           \<and> analysis_method a = JStr ''fallback''"
proof -
  have pad: "analyze_emotion e w0 = (emotion_fallback, snd (chat e w0))"
    using ask_json_fails [OF f] by (simp add: analyze_emotion_def)
  obtain ra w8 where st: "analyse_and_store e u text' itype img w0 = (ra, w8)" by force
  have w0: "interaction_logs w0 = interaction_logs w" "emotion_analyses w0 = emotion_analyses w"
    using same_tablesD [OF ground_image_tables [OF g]] bootstrap_frame [of u w] by simp_all
  from analysis_rows [OF st pad emotion_label_of_fallback]
  obtain l a where rows:
    "interaction_logs w8 = interaction_logs w @ [l]" "emotion_analyses w8 = emotion_analyses w @ [a]"
    "log_user_id l = u" "detected_emotion l = neutral_pad" "emotion_label l = JStr ''neutral''"
    "analysis_log_id a = log_id l" "pad_values a = neutral_pad"
    "emotion_categories a = neutral_category"
    "confidence_scores a = JObj [(''confidence'', JNum (1 / 2))]"
    "analysis_method a = JStr ''fallback''"
    unfolding w0 by (auto simp: emotion_fallback_def neutral_pad_def neutral_category_def)
  have "map log_core (interaction_logs w') = map log_core (interaction_logs w8)
        \<and> emotion_analyses w' = emotion_analyses w8"
    using run g st
    by (auto simp: process_interaction_def now_def split: sum.splits prod.splits
        dest!: get_response_frame)
  with rows show ?thesis by auto
qed

lemma prose_slice: "json_loads (braces_slice ''I am fine, thanks.'') = None"
  by (simp add: braces_slice_def py_find_def py_rfind_def py_slice_def slice_index_def
      json_loads_empty)

lemma plain_fails: "extraction_fails plain_env w"
  by (simp add: extraction_fails_def plain_env_def chat_def post_def prose_slice
      numeral_3_eq_3)

text \<open>
  C5, as stated: when the emotion analysis cannot be parsed, the pipeline falls back to
  the neutral triple with zero confidence.  With an endpoint that answers in prose the
  extraction fails, and the confidence written to the EmotionAnalysis row is 0.5.
\<close>

theorem fallback_confidence_counterexample:
  "extraction_fails plain_env (bootstrap ''u1'' init_world)
   \<and> map confidence_scores
        (emotion_analyses (snd (process_interaction plain_env ''u1'' ''hello'' ''topic'' None None
                                  init_world)))
       = [JObj [(''confidence'', JNum (1 / 2))]]
   \<and> JNum (1 / 2) \<noteq> JNum 0"
proof -
  obtain r w' where run:
    "process_interaction plain_env ''u1'' ''hello'' ''topic'' None None init_world = (r, w')"
    by force
  have g: "ground_image plain_env ''hello'' None (bootstrap ''u1'' init_world)
           = (Inr (''hello'', JNull), bootstrap ''u1'' init_world)"
    by (simp add: ground_image_def)
  from fallback_rows [OF g plain_fails run] run plain_fails
  show ?thesis by (auto simp: init_world_def)
qed

subsection \<open>Transport and shape failures\<close>




lemma reply_needs_answer:
  "get_response_to_interaction e u pid_opt w = (Inr rep, w') \<Longrightarrow>
   \<exists>content. fst (chat e w) = Inr content \<and> reply_text rep = py_strip content"
  by (auto simp: get_response_to_interaction_def Let_def
      split: if_splits prod.splits sum.splits option.splits)







lemma image_needs_answer:
  "analyze_image e path w = (Inr content, w') \<Longrightarrow>
   \<exists>c. fst (chat_with_image e w) = Inr c \<and> content = py_strip c"
  by (auto simp: analyze_image_def split: option.splits prod.splits sum.splits)





subsection \<open>The stored memory and its values\<close>

text \<open>
  C3.  The MemoryEvent of an interaction is meant to carry the extracted entities in
  its \<open>entities\<close> field.  \<open>_create_memories\<close> passes its arguments by position, one
  place off from \<open>media_reference\<close> on: for an interaction whose entity extraction
  names Alice and Paris, the row stores the entities map under \<open>tags\<close> and an empty
  map under \<open>entities\<close>.
\<close>

theorem entities_in_tags_column:
  "result_entities (projr (fst (process_interaction alice_env ''u1'' ''I met Alice in Paris''
                                   ''topic'' None None init_world)))
     = JObj [(''persons'', JArr [JStr ''Alice'']), (''locations'', JArr [JStr ''Paris''])]
   \<and> map entities (memory_events (snd (process_interaction alice_env ''u1''
                                           ''I met Alice in Paris'' ''topic'' None None init_world)))
     = [JObj []]
   \<and> map tags (memory_events (snd (process_interaction alice_env ''u1''
                                       ''I met Alice in Paris'' ''topic'' None None init_world)))
     = [JObj [(''persons'', JArr [JStr ''Alice'']), (''locations'', JArr [JStr ''Paris''])]]"
  by code_simp






subsection \<open>Persona names\<close>





lemma create_persona_personas:
  "personas (snd (create_persona u nm traits style avatar w)) =
     personas w @ [\<lparr>persona_id = uuids w, persona_user_id = u, name = nm,
                    personality_traits = py_or traits (JArr []),
                    communication_style = py_or style (JStr ''neutral''),
                    interaction_count = 0, persona_created_at = clock w,
                    persona_updated_at = clock w, avatar_type = avatar\<rparr>]"
  by (simp add: create_persona_def uuid4_def now_def Let_def)



lemma get_personas_grows:
  "get_personas u w \<noteq> [] \<Longrightarrow> get_personas u (snd (create_persona v nm traits style avatar w)) \<noteq> []"
  by (simp add: get_personas_def create_persona_personas)

















subsection \<open>The effect of the reply\<close>

subsection \<open>Fresh identifiers and time stamps\<close>













subsection \<open>The newest log\<close>






subsection \<open>The claims about the stored rows\<close>

text \<open>
  C5, amended.  Whenever the emotion-analysis extraction fails (the request fails or
  its answer does not parse), the pipeline falls back to the neutral PAD triple
  (0.5, 0.5, 0.5) with the label and emotion ``neutral'' and intensity 0; the
  InteractionLog carries that triple and the label ``neutral'', and the persisted
  EmotionAnalysis row carries the confidence 0.5 and the analysis tag ``fallback'',
  whatever happens in the later stages.
\<close>

theorem emotion_fallback_persisted:
  assumes "ground_image e text image_path (bootstrap u w) = (Inr (text', img), w0)"
    and "extraction_fails e w0"
    and "process_interaction e u text itype image_path pid w = (r, w')"
  shows "\<exists>l a. map log_core (interaction_logs w') = map log_core (interaction_logs w) @ [log_core l]
           \<and> log_user_id l = u \<and> detected_emotion l = neutral_pad
           \<and> emotion_label l = JStr ''neutral''
           \<and> emotion_analyses w' = emotion_analyses w @ [a]
           \<and> analysis_log_id a = log_id l \<and> pad_values a = neutral_pad
           \<and> emotion_categories a = neutral_category
           \<and> confidence_scores a = JObj [(''confidence'', JNum (1 / 2))]
           \<and> analysis_method a = JStr ''fallback''"
  using assms by (rule fallback_rows)

theorem emotion_fallback_persisted_witness:
  "ground_image plain_env ''hello'' None (bootstrap ''u1'' init_world)
     = (Inr (''hello'', JNull), bootstrap ''u1'' init_world)
   \<and> extraction_fails plain_env (bootstrap ''u1'' init_world)
   \<and> (\<exists>l a. map log_core (interaction_logs (snd plain_run))
                = map log_core (interaction_logs init_world) @ [log_core l]
           \<and> log_user_id l = ''u1'' \<and> detected_emotion l = neutral_pad
           \<and> emotion_label l = JStr ''neutral''
           \<and> emotion_analyses (snd plain_run) = emotion_analyses init_world @ [a]
           \<and> analysis_log_id a = log_id l \<and> pad_values a = neutral_pad
           \<and> emotion_categories a = neutral_category
           \<and> confidence_scores a = JObj [(''confidence'', JNum (1 / 2))]
           \<and> analysis_method a = JStr ''fallback'')"
proof -
  have g: "ground_image plain_env ''hello'' None (bootstrap ''u1'' init_world)
     = (Inr (''hello'', JNull), bootstrap ''u1'' init_world)"
    by (simp add: ground_image_def)
  have f: "extraction_fails plain_env (bootstrap ''u1'' init_world)" by code_simp
  have r: "process_interaction plain_env ''u1'' ''hello'' ''topic'' None None init_world
           = (fst plain_run, snd plain_run)"
    by (simp add: plain_run_def)
  from emotion_fallback_persisted [OF g f r] g f show ?thesis by blast
qed





end
